theory Spec2Isabelle
  imports Main "HOL-Library.Sublist" "HOL-Library.AList"
begin

section \<open>Python strings\<close>

text \<open>
  A Python \<open>str\<close> is modelled by the bytes of its UTF-8 encoding; a byte that is not
  printable ASCII is written \<open>CHR 0x..\<close>. Every pattern the two
  scripts search for or strip is ASCII, and an ASCII byte never occurs inside the encoding
  of another code point, so \<open>startswith\<close>, \<open>replace\<close>, \<open>lstrip\<close>, \<open>rstrip\<close> and
  concatenation act on the bytes as they act on the code points.
\<close>

definition startswith :: "string \<Rightarrow> string \<Rightarrow> bool" where
  "startswith s p = prefix p s"

text \<open>\<open>s.lstrip(cs)\<close> and \<open>s.rstrip(cs)\<close>: drop the leading (trailing) characters that are in \<open>cs\<close>.\<close>

definition lstrip :: "string \<Rightarrow> string \<Rightarrow> string" where
  "lstrip s cs = dropWhile (\<lambda>c. c \<in> set cs) s"

definition rstrip :: "string \<Rightarrow> string \<Rightarrow> string" where
  "rstrip s cs = rev (dropWhile (\<lambda>c. c \<in> set cs) (rev s))"

text \<open>
  \<open>s.replace(old, new)\<close>: every non-overlapping occurrence of \<open>old\<close>, from the left. With
  an empty \<open>old\<close> Python puts \<open>new\<close> before every character and at the end.
\<close>

function replace :: "string \<Rightarrow> string \<Rightarrow> string \<Rightarrow> string" where
  "replace s old new =
     (if old = [] then new @ concat (map (\<lambda>c. c # new) s)
      else if s = [] then []
      else if prefix old s then new @ replace (drop (length old) s) old new
      else hd s # replace (tl s) old new)"
  by pat_completeness auto
termination
  by (relation "measure (\<lambda>(s, old, new). length s)") auto

declare replace.simps [simp del]

text \<open>\<open>sep.join(xs)\<close>.\<close>

fun join :: "string \<Rightarrow> string list \<Rightarrow> string" where
  "join sep [] = []"
| "join sep [x] = x"
| "join sep (x # y # ys) = x @ sep @ join sep (y # ys)"


text \<open>
  \<open>s.strip()\<close> removes the leading and trailing white space. The code points for which
  \<open>str.isspace\<close> holds are listed by their UTF-8 encodings: the ASCII ones, U+0085,
  U+00A0, U+1680, U+2000 to U+200A, U+2028, U+2029, U+202F, U+205F and U+3000.
\<close>

definition whitespace :: "string list" where
  "whitespace =
     [[CHR 0x09], [CHR 0x0A], [CHR 0x0B], [CHR 0x0C], [CHR 0x0D], [CHR 0x1C], [CHR 0x1D], [CHR 0x1E],
      [CHR 0x1F], [CHR 0x20], [CHR 0xC2, CHR 0x85], [CHR 0xC2, CHR 0xA0], [CHR 0xE1, CHR 0x9A, CHR 0x80],
      [CHR 0xE2, CHR 0x80, CHR 0x80], [CHR 0xE2, CHR 0x80, CHR 0x81], [CHR 0xE2, CHR 0x80, CHR 0x82], [CHR 0xE2, CHR 0x80, CHR 0x83],
      [CHR 0xE2, CHR 0x80, CHR 0x84], [CHR 0xE2, CHR 0x80, CHR 0x85], [CHR 0xE2, CHR 0x80, CHR 0x86], [CHR 0xE2, CHR 0x80, CHR 0x87],
      [CHR 0xE2, CHR 0x80, CHR 0x88], [CHR 0xE2, CHR 0x80, CHR 0x89], [CHR 0xE2, CHR 0x80, CHR 0x8A], [CHR 0xE2, CHR 0x80, CHR 0xA8],
      [CHR 0xE2, CHR 0x80, CHR 0xA9], [CHR 0xE2, CHR 0x80, CHR 0xAF], [CHR 0xE2, CHR 0x81, CHR 0x9F], [CHR 0xE3, CHR 0x80, CHR 0x80]]"

function strip_leading :: "string list \<Rightarrow> string \<Rightarrow> string" where
  "strip_leading ws s =
     (case find (\<lambda>w. w \<noteq> [] \<and> prefix w s) ws of
        None \<Rightarrow> s
      | Some w \<Rightarrow> strip_leading ws (drop (length w) s))"
  by pat_completeness auto
termination
proof (relation "measure (\<lambda>(ws, s). length s)")
  fix ws :: "string list" and s w :: string
  assume "find (\<lambda>w. w \<noteq> [] \<and> prefix w s) ws = Some w"
  then have "w \<noteq> []" and "prefix w s"
    by (auto simp: find_Some_iff)
  then have "s \<noteq> []"
    by auto
  with \<open>w \<noteq> []\<close> show "((ws, drop (length w) s), (ws, s)) \<in> measure (\<lambda>(ws, s). length s)"
    by simp
qed simp

declare strip_leading.simps [simp del]

definition strip :: "string \<Rightarrow> string" where
  "strip s = rev (strip_leading (map rev whitespace) (rev (strip_leading whitespace s)))"

section \<open>Configuration (alforsa_full_publish.py)\<close>

text \<open>
  \<open>BUSINESS\<close> and \<open>PAGES\<close> are module-level dictionaries. The rendering functions below
  take the business record and the page list as arguments \<open>b\<close> and \<open>ps\<close>;
  \<open>build_site_and_assets\<close> calls them with the two constants, as the script does.
\<close>

record business =
  name_en :: string
  name_ar :: string
  phone :: string
  main_url :: string
  description_en :: string
  description_ar :: string
  streetAddress :: string
  currency :: string

record page =
  slug :: string
  title_en :: string
  title_ar :: string

definition BUSINESS :: business where
  "BUSINESS = \<lparr>
     name_en = ''Alforsa Ice Cream Machines'',
     name_ar = [CHR 0xD8, CHR 0xA7, CHR 0xD9, CHR 0x84, CHR 0xD9, CHR 0x81, CHR 0xD8, CHR 0xB1, CHR 0xD8, CHR 0xB5, CHR 0xD8, CHR 0xA9, CHR 0x20, CHR 0xD9, CHR 0x84, CHR 0xD9, CHR 0x85, CHR 0xD9, CHR 0x83, CHR 0xD8, CHR 0xA7, CHR 0xD8, CHR 0xA6, CHR 0xD9, CHR 0x86, CHR 0x20, CHR 0xD8, CHR 0xA7, CHR 0xD9, CHR 0x84, CHR 0xD8, CHR 0xA2, CHR 0xD9, CHR 0x8A, CHR 0xD8, CHR 0xB3, CHR 0x20, CHR 0xD9, CHR 0x83, CHR 0xD8, CHR 0xB1, CHR 0xD9, CHR 0x8A, CHR 0xD9, CHR 0x85],
     phone = ''+966509995448'',
     main_url = ''https://alforsa.sa/'',
     description_en = ''Supplier of soft serve ice cream machines, slush machines, spare parts and maintenance in Saudi Arabia and worldwide.'',
     description_ar = [CHR 0xD9, CHR 0x85, CHR 0xD9, CHR 0x88, CHR 0xD8, CHR 0xB1, CHR 0xD8, CHR 0xAF, CHR 0x20, CHR 0xD9, CHR 0x85, CHR 0xD8, CHR 0xA7, CHR 0xD9, CHR 0x83, CHR 0xD9, CHR 0x8A, CHR 0xD9, CHR 0x86, CHR 0xD8, CHR 0xA7, CHR 0xD8, CHR 0xAA, CHR 0x20, CHR 0xD8, CHR 0xA7, CHR 0xD9, CHR 0x84, CHR 0xD8, CHR 0xA2, CHR 0xD9, CHR 0x8A, CHR 0xD8, CHR 0xB3, CHR 0x20, CHR 0xD9, CHR 0x83, CHR 0xD8, CHR 0xB1, CHR 0xD9, CHR 0x8A, CHR 0xD9, CHR 0x85, CHR 0x20, CHR 0xD8, CHR 0xA7, CHR 0xD9, CHR 0x84, CHR 0xD8, CHR 0xB3, CHR 0xD9, CHR 0x88, CHR 0xD9, CHR 0x81, CHR 0xD8, CHR 0xAA, CHR 0xD8, CHR 0xB1, CHR 0xD8, CHR 0x8C, CHR 0x20, CHR 0xD9, CHR 0x85, CHR 0xD8, CHR 0xA7, CHR 0xD9, CHR 0x83, CHR 0xD9, CHR 0x8A, CHR 0xD9, CHR 0x86, CHR 0xD8, CHR 0xA7, CHR 0xD8, CHR 0xAA, CHR 0x20, CHR 0xD8, CHR 0xB3, CHR 0xD9, CHR 0x84, CHR 0xD8, CHR 0xA7, CHR 0xD8, CHR 0xB4, CHR 0xD8, CHR 0x8C, CHR 0x20, CHR 0xD9, CHR 0x82, CHR 0xD8, CHR 0xB7, CHR 0xD8, CHR 0xB9, CHR 0x20, CHR 0xD8, CHR 0xBA, CHR 0xD9, CHR 0x8A, CHR 0xD8, CHR 0xA7, CHR 0xD8, CHR 0xB1, CHR 0x20, CHR 0xD9, CHR 0x88, CHR 0xD8, CHR 0xB5, CHR 0xD9, CHR 0x8A, CHR 0xD8, CHR 0xA7, CHR 0xD9, CHR 0x86, CHR 0xD8, CHR 0xA9, CHR 0x20, CHR 0xD9, CHR 0x81, CHR 0xD9, CHR 0x8A, CHR 0x20, CHR 0xD8, CHR 0xA7, CHR 0xD9, CHR 0x84, CHR 0xD8, CHR 0xB3, CHR 0xD8, CHR 0xB9, CHR 0xD9, CHR 0x88, CHR 0xD8, CHR 0xAF, CHR 0xD9, CHR 0x8A, CHR 0xD8, CHR 0xA9, CHR 0x20, CHR 0xD9, CHR 0x88, CHR 0xD8, CHR 0xAD, CHR 0xD9, CHR 0x88, CHR 0xD9, CHR 0x84, CHR 0x20, CHR 0xD8, CHR 0xA7, CHR 0xD9, CHR 0x84, CHR 0xD8, CHR 0xB9, CHR 0xD8, CHR 0xA7, CHR 0xD9, CHR 0x84, CHR 0xD9, CHR 0x85] @ ''.'',
     streetAddress = ''Riyadh, Saudi Arabia'',
     currency = ''SAR'' \<rparr>"

definition PAGES :: "page list" where
  "PAGES =
    [\<lparr>slug = ''soft-serve-ice-cream-machine'',
      title_en = ''Soft Serve Ice Cream Machine'',
      title_ar = [CHR 0xD9, CHR 0x85, CHR 0xD8, CHR 0xA7, CHR 0xD9, CHR 0x83, CHR 0xD9, CHR 0x8A, CHR 0xD9, CHR 0x86, CHR 0xD8, CHR 0xA9, CHR 0x20, CHR 0xD8, CHR 0xA2, CHR 0xD9, CHR 0x8A, CHR 0xD8, CHR 0xB3, CHR 0x20, CHR 0xD9, CHR 0x83, CHR 0xD8, CHR 0xB1, CHR 0xD9, CHR 0x8A, CHR 0xD9, CHR 0x85, CHR 0x20, CHR 0xD8, CHR 0xB3, CHR 0xD9, CHR 0x88, CHR 0xD9, CHR 0x81, CHR 0xD8, CHR 0xAA, CHR 0x20, CHR 0xD8, CHR 0xB3, CHR 0xD9, CHR 0x8A, CHR 0xD8, CHR 0xB1, CHR 0xD9, CHR 0x81]\<rparr>,
     \<lparr>slug = ''alforsa-ice-cream-machine'',
      title_en = ''Alforsa Ice Cream Machine'',
      title_ar = [CHR 0xD9, CHR 0x85, CHR 0xD8, CHR 0xA7, CHR 0xD9, CHR 0x83, CHR 0xD9, CHR 0x8A, CHR 0xD9, CHR 0x86, CHR 0xD8, CHR 0xA9, CHR 0x20, CHR 0xD8, CHR 0xA2, CHR 0xD9, CHR 0x8A, CHR 0xD8, CHR 0xB3, CHR 0x20, CHR 0xD9, CHR 0x83, CHR 0xD8, CHR 0xB1, CHR 0xD9, CHR 0x8A, CHR 0xD9, CHR 0x85, CHR 0x20, CHR 0xD8, CHR 0xA7, CHR 0xD9, CHR 0x84, CHR 0xD9, CHR 0x81, CHR 0xD8, CHR 0xB1, CHR 0xD8, CHR 0xB5, CHR 0xD8, CHR 0xA9]\<rparr>,
     \<lparr>slug = ''slush-machine'',
      title_en = ''Slush Machine'',
      title_ar = [CHR 0xD9, CHR 0x85, CHR 0xD8, CHR 0xA7, CHR 0xD9, CHR 0x83, CHR 0xD9, CHR 0x8A, CHR 0xD9, CHR 0x86, CHR 0xD8, CHR 0xA9, CHR 0x20, CHR 0xD8, CHR 0xB3, CHR 0xD9, CHR 0x84, CHR 0xD8, CHR 0xA7, CHR 0xD8, CHR 0xB4]\<rparr>,
     \<lparr>slug = ''3-burner-slush-machine'',
      title_en = ''3 Burner Slush Machine'',
      title_ar = [CHR 0xD9, CHR 0x85, CHR 0xD8, CHR 0xA7, CHR 0xD9, CHR 0x83, CHR 0xD9, CHR 0x8A, CHR 0xD9, CHR 0x86, CHR 0xD8, CHR 0xA9, CHR 0x20, CHR 0xD8, CHR 0xB3, CHR 0xD9, CHR 0x84, CHR 0xD8, CHR 0xA7, CHR 0xD8, CHR 0xB4, CHR 0x20, CHR 0xD8, CHR 0xA8, CHR 0xD8, CHR 0xAB, CHR 0xD9, CHR 0x84, CHR 0xD8, CHR 0xA7, CHR 0xD8, CHR 0xAB, CHR 0x20, CHR 0xD8, CHR 0xB4, CHR 0xD8, CHR 0xB9, CHR 0xD9, CHR 0x84, CHR 0xD8, CHR 0xA7, CHR 0xD8, CHR 0xAA]\<rparr>,
     \<lparr>slug = ''spare-parts'',
      title_en = ''Spare Parts'',
      title_ar = [CHR 0xD9, CHR 0x82, CHR 0xD8, CHR 0xB7, CHR 0xD8, CHR 0xB9, CHR 0x20, CHR 0xD8, CHR 0xBA, CHR 0xD9, CHR 0x8A, CHR 0xD8, CHR 0xA7, CHR 0xD8, CHR 0xB1]\<rparr>,
     \<lparr>slug = ''maintenance'',
      title_en = ''Maintenance & Service'',
      title_ar = [CHR 0xD8, CHR 0xA7, CHR 0xD9, CHR 0x84, CHR 0xD8, CHR 0xB5, CHR 0xD9, CHR 0x8A, CHR 0xD8, CHR 0xA7, CHR 0xD9, CHR 0x86, CHR 0xD8, CHR 0xA9, CHR 0x20, CHR 0xD9, CHR 0x88, CHR 0xD8, CHR 0xA7, CHR 0xD9, CHR 0x84, CHR 0xD8, CHR 0xAE, CHR 0xD8, CHR 0xAF, CHR 0xD9, CHR 0x85, CHR 0xD8, CHR 0xA9]\<rparr>]"

definition OUTPUT_DIR :: string where
  "OUTPUT_DIR = ''alforsa_site''"

definition REPO_NAME :: string where
  "REPO_NAME = ''alforsa''"

section \<open>Rendering (make_html_page and the texts of build_site_and_assets)\<close>

text \<open>\<open>str(n)\<close> for a non-negative integer: its decimal digits.\<close>

function str_nat :: "nat \<Rightarrow> string" where
  "str_nat n =
     (if n < 10 then [char_of (48 + n)]
      else str_nat (n div 10) @ [char_of (48 + n mod 10)])"
  by pat_completeness auto
termination
  by (relation "measure id") auto

declare str_nat.simps [simp del]

text \<open>
  The loop over \<open>hreflang_links\<close>; the default \<open>None\<close> and the empty list both leave
  \<open>hreflang_tags\<close> empty, so \<open>None\<close> is passed as \<open>[]\<close>.
\<close>

definition hreflang_tag :: "string \<times> string \<Rightarrow> string" where
  \<open>hreflang_tag = (\<lambda>(href, hl). ''<link rel="alternate" href="'' @ href @ ''" hreflang="'' @ hl @ ''">\<newline>'' @
                                              ''    '')\<close>

text \<open>
  \<open>make_html_page\<close>. \<open>year\<close> is the value of \<open>datetime.datetime.utcnow().year\<close> read
  while the page is rendered.
\<close>

definition make_html_page ::
  "business \<Rightarrow> nat \<Rightarrow> string \<Rightarrow> string \<Rightarrow> string \<Rightarrow> string \<Rightarrow> string \<Rightarrow> (string \<times> string) list \<Rightarrow> string" where
  \<open>make_html_page b year title description canonical body_html lang hreflang_links =
     (let og_title = title;
          og_desc = description;
          hreflang_tags = concat (map hreflang_tag hreflang_links)
      in ''<!doctype html>\<newline>'' @
         ''<html lang="'' @ lang @ ''">\<newline>'' @
         ''<head>\<newline>'' @
         ''  <meta charset="utf-8">\<newline>'' @
         ''  <meta name="viewport" content="width=device-width,initial-scale=1">\<newline>'' @
         ''  <title>'' @ title @ ''</title>\<newline>'' @
         ''  <meta name="description" content="'' @ description @ ''">\<newline>'' @
         ''  <meta name="keywords" content="Alforsa, '' @ [CHR 0xD8, CHR 0xA7, CHR 0xD9, CHR 0x84, CHR 0xD9, CHR 0x81, CHR 0xD8, CHR 0xB1, CHR 0xD8, CHR 0xB5, CHR 0xD8, CHR 0xA9] @ '', ice cream machine, soft serve, slush, slush machine, spare parts, maintenance, 3 burner slush">\<newline>'' @
         ''  <link rel="canonical" href="'' @ canonical @ ''">\<newline>'' @
         ''  '' @ hreflang_tags @ ''\<newline>'' @
         ''  <meta property="og:site_name" content="'' @ name_en b @ ''">\<newline>'' @
         ''  <meta property="og:title" content="'' @ og_title @ ''">\<newline>'' @
         ''  <meta property="og:description" content="'' @ og_desc @ ''">\<newline>'' @
         ''  <meta property="og:url" content="'' @ canonical @ ''">\<newline>'' @
         ''  <meta name="twitter:card" content="summary_large_image">\<newline>'' @
         ''  <style>body{font-family:Arial,Helvetica,sans-serif;max-width:960px;margin:20px auto;padding:0 16px;line-height:1.5} header h1{font-size:1.6rem} footer{margin-top:40px;color:#444}</style>\<newline>'' @
         ''</head>\<newline>'' @
         ''<body>\<newline>'' @
         ''<header>\<newline>'' @
         ''  <h1>'' @ name_en b @ '' '' @ [CHR 0xE2, CHR 0x80, CHR 0x94] @ '' '' @ name_ar b @ ''</h1>\<newline>'' @
         ''  <p>'' @ description_en b @ ''</p>\<newline>'' @
         ''  <p><strong>Phone:</strong> <a href="tel:'' @ phone b @ ''">'' @ phone b @ ''</a> | <strong>Website:</strong> <a href="'' @ main_url b @ ''">'' @ main_url b @ ''</a></p>\<newline>'' @
         ''  <hr>\<newline>'' @
         ''</header>\<newline>'' @
         ''<main>\<newline>'' @
         body_html @ ''\<newline>'' @
         ''</main>\<newline>'' @
         ''<footer>\<newline>'' @
         ''  <p>'' @ name_en b @ '' '' @ [CHR 0xE2, CHR 0x80, CHR 0x94] @ '' '' @ name_ar b @ ''</p>\<newline>'' @
         ''  <p>Address: '' @ streetAddress b @ ''</p>\<newline>'' @
         ''  <p>Phone: <a href="tel:'' @ phone b @ ''">'' @ phone b @ ''</a> | Website: <a href="'' @ main_url b @ ''">'' @ main_url b @ ''</a></p>\<newline>'' @
         ''  <small>'' @ [CHR 0xC2, CHR 0xA9] @ '' '' @ str_nat year @ '' '' @ name_en b @ ''</small>\<newline>'' @
         ''</footer>\<newline>'' @
         ''</body>\<newline>'' @
         ''</html>\<newline>'')\<close>

subsection \<open>The two documents of one page\<close>

definition en_body :: "business \<Rightarrow> page \<Rightarrow> string" where
  \<open>en_body b p = ''<h2>'' @ title_en p @ ''</h2>\<newline>'' @
                       ''<p>'' @ title_en p @ '' '' @ [CHR 0xE2, CHR 0x80, CHR 0x94] @ '' '' @ description_en b @ ''</p>\<newline>'' @
                       ''<ul><li>High performance machines</li><li>Genuine spare parts</li><li>Maintenance & service</li></ul>''\<close>

definition en_canon :: "business \<Rightarrow> page \<Rightarrow> string" where
  "en_canon b p = rstrip (main_url b) ''/'' @ ''/en/'' @ slug p @ ''.html''"

definition en_html :: "business \<Rightarrow> nat \<Rightarrow> page \<Rightarrow> string" where
  "en_html b year p =
     make_html_page b year (title_en p @ '' '' @ [CHR 0xE2, CHR 0x80, CHR 0x94] @ '' '' @ name_en b) (en_body b p) (en_canon b p)
       (en_body b p) ''en'' []"

definition ar_body :: "business \<Rightarrow> page \<Rightarrow> string" where
  \<open>ar_body b p = ''<h2>'' @ title_ar p @ ''</h2>\<newline>'' @
                       ''<p>'' @ title_ar p @ '' '' @ [CHR 0xE2, CHR 0x80, CHR 0x94] @ '' '' @ description_ar b @ ''</p>\<newline>'' @
                       ''<ul><li>'' @ [CHR 0xD8, CHR 0xA3, CHR 0xD8, CHR 0xAF, CHR 0xD8, CHR 0xA7, CHR 0xD8, CHR 0xA1, CHR 0x20, CHR 0xD8, CHR 0xB9, CHR 0xD8, CHR 0xA7, CHR 0xD9, CHR 0x84, CHR 0xD9, CHR 0x8A] @ ''</li><li>'' @ [CHR 0xD9, CHR 0x82, CHR 0xD8, CHR 0xB7, CHR 0xD8, CHR 0xB9, CHR 0x20, CHR 0xD8, CHR 0xBA, CHR 0xD9, CHR 0x8A, CHR 0xD8, CHR 0xA7, CHR 0xD8, CHR 0xB1, CHR 0x20, CHR 0xD8, CHR 0xA3, CHR 0xD8, CHR 0xB5, CHR 0xD9, CHR 0x84, CHR 0xD9, CHR 0x8A, CHR 0xD8, CHR 0xA9] @ ''</li><li>'' @ [CHR 0xD8, CHR 0xAE, CHR 0xD8, CHR 0xAF, CHR 0xD9, CHR 0x85, CHR 0xD8, CHR 0xA7, CHR 0xD8, CHR 0xAA, CHR 0x20, CHR 0xD9, CHR 0x88, CHR 0xD8, CHR 0xB5, CHR 0xD9, CHR 0x8A, CHR 0xD8, CHR 0xA7, CHR 0xD9, CHR 0x86, CHR 0xD8, CHR 0xA9] @ ''</li></ul>''\<close>

definition ar_canon :: "business \<Rightarrow> page \<Rightarrow> string" where
  "ar_canon b p = rstrip (main_url b) ''/'' @ ''/ar/'' @ slug p @ ''.html''"

definition ar_html :: "business \<Rightarrow> nat \<Rightarrow> page \<Rightarrow> string" where
  "ar_html b year p =
     make_html_page b year (title_ar p @ '' '' @ [CHR 0xE2, CHR 0x80, CHR 0x94] @ '' '' @ name_en b) (ar_body b p) (ar_canon b p)
       (ar_body b p) ''ar'' []"

text \<open>
  The files are named by their path below \<open>OUTPUT_DIR\<close>, one list element per path
  component. The first loop of \<open>build_site_and_assets\<close> writes, for each page, the English
  document and then the Arabic one.
\<close>

type_synonym path = "string list"

definition page_documents :: "business \<Rightarrow> nat \<Rightarrow> page \<Rightarrow> (path \<times> string) list" where
  "page_documents b year p =
     [([''en'', slug p @ ''.html''], en_html b year p),
      ([''ar'', slug p @ ''.html''], ar_html b year p)]"

subsection \<open>Home pages and the root page\<close>

text \<open>The same loop appends one list item per page to each home body.\<close>

definition en_home_item :: "page \<Rightarrow> string" where
  \<open>en_home_item p = ''<li><a href="/en/'' @ slug p @ ''.html">'' @ title_en p @ '' '' @ [CHR 0xE2, CHR 0x80, CHR 0x94] @ '' '' @ title_ar p @ ''</a></li>\<newline>''\<close>

definition ar_home_item :: "page \<Rightarrow> string" where
  \<open>ar_home_item p = ''<li><a href="/ar/'' @ slug p @ ''.html">'' @ title_ar p @ '' '' @ [CHR 0xE2, CHR 0x80, CHR 0x94] @ '' '' @ title_en p @ ''</a></li>\<newline>''\<close>

definition en_home_body :: "business \<Rightarrow> page list \<Rightarrow> string" where
  \<open>en_home_body b ps =
     ''<h2>Products & Services</h2><ul>'' @ concat (map en_home_item ps) @
     ''</ul>\<newline>'' @
     ''<p>Contact us: <a href='tel:'' @ phone b @ [CHR 0x27] @ ''>'' @ phone b @ ''</a></p>''\<close>

definition ar_home_body :: "business \<Rightarrow> page list \<Rightarrow> string" where
  \<open>ar_home_body b ps =
     ''<h2>'' @ [CHR 0xD8, CHR 0xA7, CHR 0xD9, CHR 0x84, CHR 0xD9, CHR 0x85, CHR 0xD9, CHR 0x86, CHR 0xD8, CHR 0xAA, CHR 0xD8, CHR 0xAC, CHR 0xD8, CHR 0xA7, CHR 0xD8, CHR 0xAA, CHR 0x20, CHR 0xD9, CHR 0x88, CHR 0xD8, CHR 0xA7, CHR 0xD9, CHR 0x84, CHR 0xD8, CHR 0xAE, CHR 0xD8, CHR 0xAF, CHR 0xD9, CHR 0x85, CHR 0xD8, CHR 0xA7, CHR 0xD8, CHR 0xAA] @ ''</h2><ul>'' @ concat (map ar_home_item ps) @
     ''</ul>\<newline>'' @
     ''<p>'' @ [CHR 0xD8, CHR 0xA7, CHR 0xD8, CHR 0xAA, CHR 0xD8, CHR 0xB5, CHR 0xD9, CHR 0x84, CHR 0x20, CHR 0xD8, CHR 0xA8, CHR 0xD9, CHR 0x86, CHR 0xD8, CHR 0xA7] @ '': <a href='tel:'' @ phone b @ [CHR 0x27] @ ''>'' @ phone b @ ''</a></p>''\<close>

definition en_index_canon :: "business \<Rightarrow> string" where
  "en_index_canon b = rstrip (main_url b) ''/'' @ ''/en/index.html''"

definition en_index_html :: "business \<Rightarrow> page list \<Rightarrow> nat \<Rightarrow> string" where
  "en_index_html b ps year =
     make_html_page b year (name_en b @ '' '' @ [CHR 0xE2, CHR 0x80, CHR 0x94] @ '' Home'') (description_en b) (en_index_canon b)
       (en_home_body b ps) ''en'' []"

definition ar_index_canon :: "business \<Rightarrow> string" where
  "ar_index_canon b = rstrip (main_url b) ''/'' @ ''/ar/index.html''"

definition ar_index_html :: "business \<Rightarrow> page list \<Rightarrow> nat \<Rightarrow> string" where
  "ar_index_html b ps year =
     make_html_page b year (name_ar b @ '' '' @ [CHR 0xE2, CHR 0x80, CHR 0x94, CHR 0x20, CHR 0xD8, CHR 0xA7, CHR 0xD9, CHR 0x84, CHR 0xD8, CHR 0xB5, CHR 0xD9, CHR 0x81, CHR 0xD8, CHR 0xAD, CHR 0xD8, CHR 0xA9, CHR 0x20, CHR 0xD8, CHR 0xA7, CHR 0xD9, CHR 0x84, CHR 0xD8, CHR 0xB1, CHR 0xD8, CHR 0xA6, CHR 0xD9, CHR 0x8A, CHR 0xD8, CHR 0xB3, CHR 0xD9, CHR 0x8A, CHR 0xD8, CHR 0xA9]) (description_ar b)
       (ar_index_canon b) (ar_home_body b ps) ''ar'' []"

definition root_body :: "business \<Rightarrow> string" where
  \<open>root_body b = ''\<newline>'' @
                       ''<h2>Welcome / '' @ [CHR 0xD9, CHR 0x85, CHR 0xD8, CHR 0xB1, CHR 0xD8, CHR 0xAD, CHR 0xD8, CHR 0xA8, CHR 0xD8, CHR 0xA7, CHR 0xD9, CHR 0x8B] @ ''</h2>\<newline>'' @
                       ''<p><a href="/en/index.html">English site '' @ [CHR 0xE2, CHR 0x80, CHR 0x94] @ '' English</a></p>\<newline>'' @
                       ''<p><a href="/ar/index.html">'' @ [CHR 0xD8, CHR 0xA7, CHR 0xD9, CHR 0x84, CHR 0xD9, CHR 0x85, CHR 0xD9, CHR 0x88, CHR 0xD9, CHR 0x82, CHR 0xD8, CHR 0xB9, CHR 0x20, CHR 0xD8, CHR 0xA8, CHR 0xD8, CHR 0xA7, CHR 0xD9, CHR 0x84, CHR 0xD9, CHR 0x84, CHR 0xD8, CHR 0xBA, CHR 0xD8, CHR 0xA9, CHR 0x20, CHR 0xD8, CHR 0xA7, CHR 0xD9, CHR 0x84, CHR 0xD8, CHR 0xB9, CHR 0xD8, CHR 0xB1, CHR 0xD8, CHR 0xA8, CHR 0xD9, CHR 0x8A, CHR 0xD8, CHR 0xA9, CHR 0x20, CHR 0xE2, CHR 0x80, CHR 0x94] @ '' Arabic</a></p>\<newline>'' @
                       ''<p>Or visit the official site: <a href="'' @ main_url b @ ''">'' @ main_url b @ ''</a></p>\<newline>''\<close>

definition root_html :: "business \<Rightarrow> nat \<Rightarrow> string" where
  "root_html b year =
     make_html_page b year (name_en b @ '' '' @ [CHR 0xE2, CHR 0x80, CHR 0x94] @ '' Landing'') (description_en b) (main_url b)
       (root_body b) ''en''
       [(rstrip (main_url b) ''/'' @ ''/en/index.html'', ''en''),
        (rstrip (main_url b) ''/'' @ ''/ar/index.html'', ''ar'')]"

subsection \<open>sitemap.xml, robots.txt, the JSON-LD file and the two fixed files\<close>

text \<open>
  The script's locals \<open>base\<close>, \<open>urls\<close> and \<open>sitemap\<close>; \<open>today\<close> is the text of
  \<open>datetime.date.today().isoformat()\<close>.
\<close>

definition sitemap_base :: "business \<Rightarrow> string" where
  "sitemap_base b = rstrip (main_url b) ''/''"

definition sitemap_urls :: "business \<Rightarrow> page list \<Rightarrow> string list" where
  "sitemap_urls b ps =
     (let base = sitemap_base b
      in [base @ ''/index.html'', base @ ''/en/index.html'', base @ ''/ar/index.html'']
         @ concat (map (\<lambda>p. [base @ ''/en/'' @ slug p @ ''.html'',
                               base @ ''/ar/'' @ slug p @ ''.html'']) ps))"

definition sitemap_url_lines :: "string \<Rightarrow> string \<Rightarrow> string list" where
  "sitemap_url_lines today u =
     [''  <url>'',
      ''    <loc>'' @ u @ ''</loc>'',
      ''    <lastmod>'' @ today @ ''</lastmod>'',
      ''  </url>'']"

definition sitemap :: "business \<Rightarrow> page list \<Rightarrow> string \<Rightarrow> string list" where
  \<open>sitemap b ps today =
     [''<?xml version="1.0" encoding="UTF-8"?>'',
      ''<urlset xmlns="http://www.sitemaps.org/schemas/sitemap/0.9">'']
     @ concat (map (sitemap_url_lines today) (sitemap_urls b ps))
     @ [''</urlset>'']\<close>

definition sitemap_xml :: "business \<Rightarrow> page list \<Rightarrow> string \<Rightarrow> string" where
  "sitemap_xml b ps today = join ''\<newline>'' (sitemap b ps today)"

definition robots_txt :: "business \<Rightarrow> string" where
  \<open>robots_txt b = (let base = sitemap_base b in ''User-agent: *\<newline>'' @
                                                      ''Allow: /\<newline>'' @
                                                      ''Sitemap: '' @ base @ ''/sitemap.xml\<newline>'')\<close>

text \<open>JSON values, as far as the script builds them: strings, booleans and dictionaries.\<close>

datatype json = JString string | JBool bool | JObject "(string \<times> json) list"

text \<open>
  \<open>json.dumps(v, ensure_ascii=False, indent=2)\<close>: a string is quoted with the quote, the
  backslash and the control characters below 0x20 escaped and everything else left as it
  is; a dictionary puts each item on a line of its own, indented by two spaces per level.
\<close>

definition hex_digit :: "nat \<Rightarrow> char" where
  "hex_digit n = ''0123456789abcdef'' ! (n mod 16)"

definition json_escape :: "char \<Rightarrow> string" where
  \<open>json_escape c =
     (if c = CHR ''"'' then [CHR 0x5C, CHR ''"'']
      else if c = CHR 0x5C then [CHR 0x5C, CHR 0x5C]
      else if c = CHR 0x0A then [CHR 0x5C, CHR ''n'']
      else if c = CHR 0x0D then [CHR 0x5C, CHR ''r'']
      else if c = CHR 0x09 then [CHR 0x5C, CHR ''t'']
      else if c = CHR 0x08 then [CHR 0x5C, CHR ''b'']
      else if c = CHR 0x0C then [CHR 0x5C, CHR ''f'']
      else if (of_char c :: nat) < 32
        then [CHR 0x5C, CHR ''u'', CHR ''0'', CHR ''0'',
              hex_digit (of_char c div 16), hex_digit (of_char c)]
      else [c])\<close>

definition json_string :: "string \<Rightarrow> string" where
  \<open>json_string s = ''"'' @ concat (map json_escape s) @ ''"''\<close>

fun json_dumps :: "nat \<Rightarrow> json \<Rightarrow> string" where
  "json_dumps level (JString s) = json_string s"
| "json_dumps level (JBool v) = (if v then ''true'' else ''false'')"
| "json_dumps level (JObject []) = ''{}''"
| "json_dumps level (JObject (kv # kvs)) =
     ''{\<newline>'' @
     join '',\<newline>''
       (map (\<lambda>(k, v). replicate (2 * (level + 1)) CHR '' '' @ json_string k @ '': '' @
                       json_dumps (level + 1) v) (kv # kvs)) @
     ''\<newline>'' @ replicate (2 * level) CHR '' '' @ ''}''"

definition ld :: "business \<Rightarrow> json" where
  "ld b = JObject
     [(''@context'', JString ''https://schema.org''),
      (''@type'', JString ''LocalBusiness''),
      (''name'', JString (name_en b)),
      (''alternateName'', JString (name_ar b)),
      (''url'', JString (main_url b)),
      (''telephone'', JString (phone b)),
      (''address'', JObject
         [(''@type'', JString ''PostalAddress''),
          (''streetAddress'', JString (streetAddress b)),
          (''addressCountry'', JString ''SA'')])]"

definition verification_filename :: string where
  "verification_filename = ''google-site-verification-alforsa.html''"

definition verification_content :: string where
  \<open>verification_content = ''<html><head><meta name='google-site-verification' content='replace_with_token'></head><body>Google site verification file for Alforsa</body></html>''\<close>

text \<open>Every \<open>write_text\<close> of \<open>build_site_and_assets\<close>, in the order of the calls.\<close>

definition site_documents ::
  "business \<Rightarrow> page list \<Rightarrow> string \<Rightarrow> nat \<Rightarrow> (path \<times> string) list" where
  "site_documents b ps today year =
     concat (map (page_documents b year) ps) @
     [([''en'', ''index.html''], en_index_html b ps year),
      ([''ar'', ''index.html''], ar_index_html b ps year),
      ([''index.html''], root_html b year),
      ([''sitemap.xml''], sitemap_xml b ps today),
      ([''robots.txt''], robots_txt b),
      ([''schema_localbusiness.json''], json_dumps 0 (ld b)),
      ([verification_filename], verification_content),
      ([''CNAME''], ''alforsa.sa\<newline>'')]"

section \<open>Files\<close>

text \<open>
  The current working directory is a tree. A directory lists its entries by name; the
  names of one directory are distinct in a tree that stands for a real directory
  (\<open>wf_node\<close>). A path is the list of its components, relative to the working directory.
\<close>

datatype node = File string | Dir "(string \<times> node) list"

datatype exn =
    FileExistsError | FileNotFoundError | IsADirectoryError | NotADirectoryError
  | IndexError | RequestException

fun is_dir :: "node \<Rightarrow> bool" where
  "is_dir (Dir es) = True"
| "is_dir (File c) = False"

fun wf_node :: "node \<Rightarrow> bool" where
  "wf_node (File c) = True"
| "wf_node (Dir es) = (distinct (map fst es) \<and> list_all (\<lambda>(n, sub). wf_node sub) es)"

fun lookup_node :: "path \<Rightarrow> node \<Rightarrow> node option" where
  "lookup_node [] t = Some t"
| "lookup_node (d # p) (File c) = None"
| "lookup_node (d # p) (Dir es) =
     (case map_of es d of None \<Rightarrow> None | Some sub \<Rightarrow> lookup_node p sub)"

text \<open>Opening a file for reading and reading all of it.\<close>

definition read_file :: "path \<Rightarrow> node \<Rightarrow> string option" where
  "read_file p t = (case lookup_node p t of Some (File c) \<Rightarrow> Some c | _ \<Rightarrow> None)"

text \<open>
  \<open>Path.mkdir(exist_ok=True)\<close>: an existing directory is accepted, an existing file is
  not, and the parent has to exist.
\<close>

fun mkdir :: "path \<Rightarrow> node \<Rightarrow> exn + node" where
  "mkdir [] t = Inr t"
| "mkdir (d # p) (File c) = Inl NotADirectoryError"
| "mkdir (d # p) (Dir es) =
     (case map_of es d of
        None \<Rightarrow> (if p = [] then Inr (Dir (es @ [(d, Dir [])])) else Inl FileNotFoundError)
      | Some sub \<Rightarrow>
          (if p = [] then (if is_dir sub then Inr (Dir es) else Inl FileExistsError)
           else (case mkdir p sub of
                   Inl x \<Rightarrow> Inl x
                 | Inr sub' \<Rightarrow> Inr (Dir (AList.update d sub' es)))))"

text \<open>
  \<open>Path.write_text\<close>: the file is created or overwritten; the parent has to exist and
  the path must not name a directory.
\<close>

fun write_text :: "path \<Rightarrow> string \<Rightarrow> node \<Rightarrow> exn + node" where
  "write_text [] c t = Inl IsADirectoryError"
| "write_text (d # p) c (File c') = Inl NotADirectoryError"
| "write_text (d # p) c (Dir es) =
     (case map_of es d of
        None \<Rightarrow> (if p = [] then Inr (Dir (es @ [(d, File c)])) else Inl FileNotFoundError)
      | Some sub \<Rightarrow>
          (if p = [] then (if is_dir sub then Inl IsADirectoryError
                           else Inr (Dir (AList.update d (File c) es)))
           else (case write_text p c sub of
                   Inl x \<Rightarrow> Inl x
                 | Inr sub' \<Rightarrow> Inr (Dir (AList.update d sub' es)))))"

text \<open>
  \<open>os.walk(top)\<close>, top down: for a directory the triple of its path, the names of its
  subdirectories and the names of its files, followed by the walks of the subdirectories.
  Nothing is produced for a path that is not a directory.
\<close>

fun os_walk :: "path \<Rightarrow> node \<Rightarrow> (path \<times> string list \<times> string list) list" where
  "os_walk dirpath (File c) = []"
| "os_walk dirpath (Dir es) =
     (dirpath, map fst (filter (\<lambda>(n, sub). is_dir sub) es),
           map fst (filter (\<lambda>(n, sub). \<not> is_dir sub) es))
     # concat (map (\<lambda>(n, sub). os_walk (dirpath @ [n]) sub) (filter (\<lambda>(n, sub). is_dir sub) es))"

text \<open>
  \<open>os.path.relpath(p, start)\<close> on the components of two paths taken from the same
  directory: one \<open>..\<close> for every component of \<open>start\<close> after the common prefix, then the
  rest of \<open>p\<close>; \<open>.\<close> when nothing is left.
\<close>

definition relpath :: "path \<Rightarrow> path \<Rightarrow> path" where
  "relpath p start =
     (let i = length (longest_common_prefix start p);
          rel_list = replicate (length start - i) ''..'' @ drop i p
      in if rel_list = [] then [''.''] else rel_list)"

section \<open>The world of a run\<close>

text \<open>
  What a run does to its surroundings is recorded as a trace of events: the lines printed,
  the prompts, the HTTP requests and the calls of the Git library, each Git call with a
  flag that says whether it returned (\<open>True\<close>) or raised (\<open>False\<close>).
\<close>

datatype git_op =
    Init string
  | AddAll
  | Commit string
  | DeleteRemote string
  | CreateRemote string string
  | Push string string bool

datatype event =
    Print string
  | Input string
  | Getpass string
  | Post string "string \<times> string" json
  | Git git_op bool

text \<open>
  The state: the tree of the working directory, the entries of \<open>alforsa_site.zip\<close> once
  it has been written, the remotes stored in the configuration of the repository in
  \<open>OUTPUT_DIR\<close> (name and URL), and the trace.
\<close>

record world =
  cwd :: node
  archive :: "(path \<times> string) list option"
  remotes :: "(string \<times> string) list"
  trace :: "event list"

text \<open>
  What the surroundings answer. \<open>today\<close> is \<open>datetime.date.today().isoformat()\<close>,
  \<open>utc_year\<close> is \<open>datetime.datetime.utcnow().year\<close> and \<open>resolved\<close> is the text of
  \<open>OUTPUT_DIR.resolve()\<close>. \<open>username_input\<close> and \<open>token_input\<close> are the two lines typed.
  A response is the status code and the text of the reply, or \<open>None\<close> when
  \<open>requests.post\<close> raises. An error field holds the text of the exception that the call
  raises, or \<open>None\<close> when it returns. \<open>git_dir\<close> is the directory \<open>.git\<close> that
  \<open>Repo.init\<close> leaves in \<open>OUTPUT_DIR\<close>. Each call that changes the remotes has its own
  answer: \<open>delete_old_raises\<close> for the removal of a \<open>temp-origin\<close> left by an earlier run,
  \<open>create_raises\<close> for \<open>create_remote\<close>, and \<open>delete_raises\<close> for the removal at the end
  of the push; the flag says that the call raises \<open>GitCommandError\<close> although the remotes
  would allow it. \<open>push_outcome\<close> is asked with the refspec: the push statement raises, or
  it returns while the remote has rejected the ref, or it returns and the ref is
  accepted. \<open>lookup_error\<close> is the text of the \<open>IndexError\<close> of \<open>repo.remotes[name]\<close>
  for a name that is not a remote.
\<close>

datatype push_outcome = Accepted | Rejected | Raises string

record env =
  today :: string
  utc_year :: nat
  resolved :: string
  username_input :: string
  token_input :: string
  create_response :: "(nat \<times> string) option"
  pages_response :: "(nat \<times> string) option"
  init_error :: "string option"
  add_error :: "string option"
  commit_error :: "string option"
  git_dir :: node
  delete_old_raises :: bool
  create_raises :: bool
  push_outcome :: "string \<Rightarrow> push_outcome"
  delete_raises :: bool
  lookup_error :: string

definition emit :: "event list \<Rightarrow> world \<Rightarrow> world" where
  "emit es w = w\<lparr>trace := trace w @ es\<rparr>"

section \<open>The Site Builder (build_site_and_assets)\<close>

definition ensure_dirs :: "node \<Rightarrow> exn + node" where
  "ensure_dirs t =
     (case mkdir [OUTPUT_DIR] t of
        Inl x \<Rightarrow> Inl x
      | Inr t1 \<Rightarrow>
          (case mkdir [OUTPUT_DIR, ''en''] t1 of
             Inl x \<Rightarrow> Inl x
           | Inr t2 \<Rightarrow> mkdir [OUTPUT_DIR, ''ar''] t2))"

text \<open>The writes, one after the other; the first that raises ends the run.\<close>

fun write_documents :: "(path \<times> string) list \<Rightarrow> node \<Rightarrow> exn + node" where
  "write_documents [] t = Inr t"
| "write_documents ((p, c) # ds) t =
     (case write_text (OUTPUT_DIR # p) c t of
        Inl x \<Rightarrow> Inl x
      | Inr t' \<Rightarrow> write_documents ds t')"

definition zipname :: string where
  "zipname = ''alforsa_site.zip''"

text \<open>
  The archive loop: for every file that \<open>os.walk(OUTPUT_DIR)\<close> lists, \<open>fp\<close> is
  \<open>os.path.join(root, f)\<close>, \<open>arc\<close> is \<open>os.path.relpath(fp, OUTPUT_DIR)\<close>, and
  \<open>z.write(fp, arc)\<close> stores what it reads at \<open>fp\<close> under the name \<open>arc\<close>. The result is
  \<open>None\<close> when a read fails.
\<close>

definition zip_entries :: "node \<Rightarrow> (path \<times> string) list option" where
  "zip_entries t =
     those (concat (map
       (\<lambda>(root, dirs, files).
          map (\<lambda>f. let fp = root @ [f]; arc = relpath fp [OUTPUT_DIR]
                    in map_option (Pair arc) (read_file fp t)) files)
       (case lookup_node [OUTPUT_DIR] t of
          None \<Rightarrow> []
        | Some out \<Rightarrow> os_walk [OUTPUT_DIR] out)))"

definition built_message :: "env \<Rightarrow> string" where
  "built_message e = [CHR 0xE2, CHR 0x9C, CHR 0x85] @ '' Built site in '' @ [CHR 0x27] @ resolved e @ [CHR 0x27] @ '', and packaged as '' @ zipname"

definition build_site_and_assets :: "env \<Rightarrow> world \<Rightarrow> exn + world" where
  "build_site_and_assets e w =
     (case ensure_dirs (cwd w) of
        Inl x \<Rightarrow> Inl x
      | Inr t1 \<Rightarrow>
     (case write_documents (site_documents BUSINESS PAGES (today e) (utc_year e)) t1 of
        Inl x \<Rightarrow> Inl x
      | Inr t2 \<Rightarrow>
     (case lookup_node [zipname] t2 of
        Some (Dir es) \<Rightarrow> Inl IsADirectoryError
      | _ \<Rightarrow>
     (case zip_entries t2 of
        None \<Rightarrow> Inl FileNotFoundError
      | Some entries \<Rightarrow>
          Inr (emit [Print (built_message e)]
                 (w\<lparr>cwd := t2, archive := Some entries\<rparr>))))))"

section \<open>The Repo Publisher\<close>

subsection \<open>create_github_repo\<close>

definition create_github_repo :: "string \<Rightarrow> string \<Rightarrow> env \<Rightarrow> world \<Rightarrow> exn + world" where
  "create_github_repo username token e w =
     (let url = ''https://api.github.com/user/repos'';
          data = JObject [(''name'', JString REPO_NAME), (''private'', JBool False),
                          (''has_pages'', JBool True)]
      in case create_response e of
           None \<Rightarrow> Inl RequestException
         | Some (status_code, text) \<Rightarrow>
             Inr (emit
               [Post url (username, token) data,
                Print (if status_code = 201 then [CHR 0xE2, CHR 0x9C, CHR 0x85] @ '' GitHub repository created.''
                       else if status_code = 422 then [CHR 0xE2, CHR 0x9A, CHR 0xA0, CHR 0xEF, CHR 0xB8, CHR 0x8F] @ '' Repo may already exist (HTTP 422). Will continue and try to push to it.''
                       else [CHR 0xE2, CHR 0x9D, CHR 0x8C] @ '' Failed to create repo via API. Response:'' @ '' '' @ str_nat status_code @ '' '' @ text)] w))"

subsection \<open>push_site_to_github\<close>

text \<open>
  \<open>Repo.init(repo_dir)\<close> leaves the directory \<open>.git\<close> in \<open>OUTPUT_DIR\<close>. Of what the later
  Git calls write below \<open>.git\<close>, only the remotes are kept, in \<open>remotes\<close>.
\<close>

definition git_init :: "node \<Rightarrow> node \<Rightarrow> node" where
  "git_init g t =
     (case t of
        File c \<Rightarrow> t
      | Dir es \<Rightarrow>
          (case map_of es OUTPUT_DIR of
             None \<Rightarrow> Dir (es @ [(OUTPUT_DIR, Dir [(''.git'', g)])])
           | Some (File c) \<Rightarrow> t
           | Some (Dir out) \<Rightarrow>
               Dir (AList.update OUTPUT_DIR (Dir (AList.update ''.git'' g out)) es)))"

text \<open>
  \<open>git remote rm\<close> removes a remote that exists and fails for one that does not;
  \<open>git remote add\<close> adds a remote under a new name and fails for a name that is taken.
  Either call may also raise for a reason of its own: \<open>raises\<close> is the answer of the
  surroundings for this call. The first component of the result says whether the call
  returned.
\<close>

definition delete_remote :: "bool \<Rightarrow> string \<Rightarrow> world \<Rightarrow> bool \<times> world" where
  "delete_remote raises name w =
     (if raises \<or> name \<notin> set (map fst (remotes w))
      then (False, emit [Git (DeleteRemote name) False] w)
      else (True, emit [Git (DeleteRemote name) True]
                    (w\<lparr>remotes := filter (\<lambda>r. fst r \<noteq> name) (remotes w)\<rparr>)))"

definition create_remote :: "string \<Rightarrow> string \<Rightarrow> env \<Rightarrow> world \<Rightarrow> bool \<times> world" where
  "create_remote name url e w =
     (if create_raises e \<or> name \<in> set (map fst (remotes w))
      then (False, emit [Git (CreateRemote name url) False] w)
      else (True, emit [Git (CreateRemote name url) True]
                    (w\<lparr>remotes := remotes w @ [(name, url)]\<rparr>)))"

text \<open>
  The block that sets the temporary remote. Its \<open>except GitCommandError\<close> handler prints
  and evaluates \<open>repo.remotes.temporigin if hasattr(repo.remotes, "temporigin") else
  repo.remotes[0]\<close>: the attribute exists when a remote is named \<open>temporigin\<close>, and
  \<open>repo.remotes[0]\<close> raises \<open>IndexError\<close> on an empty list. The value bound to \<open>temp\<close>
  is not used afterwards.
\<close>

definition could_not_create :: string where
  "could_not_create = [CHR 0xE2, CHR 0x9A, CHR 0xA0, CHR 0xEF, CHR 0xB8, CHR 0x8F] @ '' Could not create temporary remote '' @ [CHR 0xE2, CHR 0x80, CHR 0x94] @ '' it may exist. Continuing...''"

definition set_temp_remote :: "string \<Rightarrow> env \<Rightarrow> world \<Rightarrow> exn + world" where
  "set_temp_remote remote_url_with_token e w =
     (let (deleted, w1) =
            (if ''temp-origin'' \<in> set (map fst (remotes w))
             then delete_remote (delete_old_raises e) ''temp-origin'' w else (True, w));
          (created, w2) =
            (if deleted then create_remote ''temp-origin'' remote_url_with_token e w1
             else (False, w1))
      in if created then Inr w2
         else (let w3 = emit [Print could_not_create] w2
               in if ''temporigin'' \<in> set (map fst (remotes w3)) then Inr w3
                  else if remotes w3 = [] then Inl IndexError
                  else Inr w3))"

text \<open>
  One \<open>repo.remotes["temp-origin"].push(refspec=f"{branch}:{branch}", force=True)\<close>
  inside its \<open>try\<close>: the text of the exception it raises, or \<open>None\<close> when it returns.
  The lookup of the remote raises before \<open>push\<close> is called when no remote has the name.
  The value that \<open>push\<close> returns is not looked at, so a push that the remote has rejected
  is a push that returned.
\<close>

definition try_push :: "string \<Rightarrow> env \<Rightarrow> world \<Rightarrow> string option \<times> world" where
  "try_push branch e w =
     (let refspec = branch @ '':'' @ branch
      in if ''temp-origin'' \<in> set (map fst (remotes w))
         then (case push_outcome e refspec of
                 Accepted \<Rightarrow> (None, emit [Git (Push ''temp-origin'' refspec True) True] w)
               | Rejected \<Rightarrow> (None, emit [Git (Push ''temp-origin'' refspec True) True] w)
               | Raises err \<Rightarrow>
                   (Some err, emit [Git (Push ''temp-origin'' refspec True) False] w))
         else (Some (lookup_error e), w))"

text \<open>The \<open>try: repo.delete_remote("temp-origin") except Exception: pass\<close> of both ends.\<close>

definition remove_temp_remote :: "env \<Rightarrow> world \<Rightarrow> world" where
  "remove_temp_remote e w = snd (delete_remote (delete_raises e) ''temp-origin'' w)"

definition commit_message :: string where
  "commit_message = ''Initial commit - Alforsa site''"

definition remote_url :: "string \<Rightarrow> string \<Rightarrow> string" where
  "remote_url username token = ''https://'' @ username @ '':'' @ token @ ''@github.com/'' @ username @ ''/'' @ REPO_NAME @ ''.git''"

text \<open>The lines printed at the three ends of the push.\<close>

definition files_pushed :: "string \<Rightarrow> string \<Rightarrow> string" where
  "files_pushed username branch = [CHR 0xF0, CHR 0x9F, CHR 0x9A, CHR 0x80] @ '' Files pushed to GitHub repository '' @ [CHR 0x27] @ username @ ''/'' @ REPO_NAME @ [CHR 0x27] @ '' (branch: '' @ branch @ '').''"

definition push_failed :: "string \<Rightarrow> string" where
  "push_failed e2 = [CHR 0xE2, CHR 0x9D, CHR 0x8C] @ '' Push failed. Error:'' @ '' '' @ e2"

definition possible_reasons :: string where
  "possible_reasons = ''Possible reasons: authentication failed, repo already exists with protected branches, or token scopes insufficient.''"

definition push_site_to_github :: "string \<Rightarrow> string \<Rightarrow> env \<Rightarrow> world \<Rightarrow> exn + world" where
  "push_site_to_github username token e w =
     (let repo_dir = resolved e
      in case init_error e of
           Some err \<Rightarrow>
             Inr (emit [Git (Init repo_dir) False,
                        Print ([CHR 0xE2, CHR 0x9D, CHR 0x8C] @ '' Git init error:'' @ '' '' @ err)] w)
         | None \<Rightarrow>
     (let w1 = emit [Git (Init repo_dir) True] (w\<lparr>cwd := git_init (git_dir e) (cwd w)\<rparr>);
          w2 = (case add_error e of
                  Some err \<Rightarrow>
                    emit [Git AddAll False,
                          Print ([CHR 0xE2, CHR 0x9A, CHR 0xA0, CHR 0xEF, CHR 0xB8, CHR 0x8F] @ '' Commit warning:'' @ '' '' @ err)] w1
                | None \<Rightarrow>
                    (case commit_error e of
                       Some err \<Rightarrow>
                         emit [Git AddAll True, Git (Commit commit_message) False,
                               Print ([CHR 0xE2, CHR 0x9A, CHR 0xA0, CHR 0xEF, CHR 0xB8, CHR 0x8F] @ '' Commit warning:'' @ '' '' @ err)] w1
                     | None \<Rightarrow> emit [Git AddAll True, Git (Commit commit_message) True] w1));
          remote_url_with_token = remote_url username token
      in case set_temp_remote remote_url_with_token e w2 of
           Inl x \<Rightarrow> Inl x
         | Inr w3 \<Rightarrow>
     (case try_push ''master'' e w3 of
        (None, w4) \<Rightarrow>
          (let branch = ''master''
           in Inr (emit [Print (files_pushed username branch)] (remove_temp_remote e w4)))
      | (Some err, w4) \<Rightarrow>
     (case try_push ''main'' e w4 of
        (None, w5) \<Rightarrow>
          (let branch = ''main''
           in Inr (emit [Print (files_pushed username branch)] (remove_temp_remote e w5)))
      | (Some e2, w5) \<Rightarrow>
          Inr (remove_temp_remote e
                 (emit [Print (push_failed e2), Print possible_reasons] w5))))))"

subsection \<open>enable_github_pages_api\<close>

definition pages_url :: "string \<Rightarrow> string" where
  "pages_url username = ''https://api.github.com/repos/'' @ username @ ''/'' @ REPO_NAME @ ''/pages''"

definition payload :: json where
  "payload = JObject [(''source'', JObject [(''branch'', JString ''master''),
                                            (''path'', JString ''/'')])]"

definition enable_github_pages_api :: "string \<Rightarrow> string \<Rightarrow> env \<Rightarrow> world \<Rightarrow> exn + world" where
  "enable_github_pages_api username token e w =
     (case pages_response e of
        None \<Rightarrow> Inl RequestException
      | Some (status_code, text) \<Rightarrow>
          Inr (emit
            [Post (pages_url username) (username, token) payload,
             Print (if status_code = 201 \<or> status_code = 204 then [CHR 0xF0, CHR 0x9F, CHR 0x8C, CHR 0x90] @ '' GitHub Pages enabled via API.''
                    else [CHR 0xE2, CHR 0x9A, CHR 0xA0, CHR 0xEF, CHR 0xB8, CHR 0x8F] @ '' GitHub Pages API response:'' @ '' '' @ str_nat status_code @ '' '' @ text),
             Print (''Your GitHub Pages URL (expected): https://'' @ username @ ''.github.io/'' @ REPO_NAME @ ''/'')] w))"

subsection \<open>print_next_manual_steps and main\<close>

text \<open>The lines that \<open>print_next_manual_steps\<close> prints.\<close>

definition next_manual_steps :: "string \<Rightarrow> event list" where
  \<open>next_manual_steps username =
     (let b = BUSINESS
      in
       [Print (''\<newline>'' @
               ''==== NEXT STEPS (copy/paste exact instructions) ====\<newline>''),
        Print (''1) Visit your GitHub Pages URL (it may take a minute to build):''),
        Print (''   https://'' @ username @ ''.github.io/'' @ REPO_NAME @ ''/''),
        Print (''\<newline>'' @
               ''2) Google Search Console verification (two common options):''),
        Print (''   A) HTML file method:''),
        Print (''      - Go to https://search.google.com/search-console/''),
        Print (''      - Add property: 'https://{username}.github.io/{REPO_NAME}/' (URL prefix)''),
        Print (''      - Choose 'HTML file' verification and upload the file named 'google-site-verification-alforsa.html' from the root of the site (it's inside the alforsa_site folder).''),
        Print (''   B) Or choose 'Domain' and add the DNS TXT record at your domain provider (if you own alforsa.sa).''),
        Print (''\<newline>'' @
               ''3) Google Business Profile (very important):''),
        Print (''   - Go to https://business.google.com/ and sign in with a Google account.''),
        Print (''   - Create a new business with the name EXACTLY: '' @ [CHR 0x27] @ name_en b @ [CHR 0x27]),
        Print (''   - Fill in address (Riyadh, Saudi Arabia) and phone:'' @ '' '' @ phone b),
        Print (''   - Add website: your GitHub Pages URL or your custom domain.''),
        Print (''   - Request verification (phone/postcard) and complete it.''),
        Print (''\<newline>'' @
               ''4) If you own alforsa.sa and want to use it as custom domain (recommended):''),
        Print (''   - In your domain DNS settings, create CNAME record:''),
        Print (''       Host/Name: www''),
        Print (''       Value/Target: {username}.github.io.''),
        Print (''   - If you want root domain (alforsa.sa) to point to Pages, follow GitHub docs for A records -> https://docs.github.com/en/pages/configuring-a-custom-domain-for-your-github-pages-site''),
        Print (''   - Then, in your GitHub repo's Settings '' @ [CHR 0xE2, CHR 0x86, CHR 0x92] @ '' Pages '' @ [CHR 0xE2, CHR 0x86, CHR 0x92] @ '' set custom domain to 'alforsa.sa' and enable HTTPS.''),
        Print (''\<newline>'' @
               ''5) Submit sitemap to Search Console:''),
        Print (''   - In Search Console, go to Sitemaps and submit: https://'' @ username @ ''.github.io/'' @ REPO_NAME @ ''/sitemap.xml''),
        Print (''\<newline>'' @
               ''6) Revoke the GitHub token if you don't need it anymore (recommended):''),
        Print (''   - Go to https://github.com/settings/tokens and delete the token you used.''),
        Print (''\<newline>'' @
               ''7) Add social profiles and link to your site:''),
        Print (''   - Create Google Business Profile, Facebook Page, Instagram, YouTube channel, LinkedIn page.''),
        Print (''   - Add the site URL to each profile and add photos, product descriptions and contact info.''),
        Print (''\<newline>'' @
               ''8) Add detailed product pages: photos, specs, manuals, pricing and FAQs to improve indexing and authority.''),
        Print (''\<newline>'' @
               ''9) For Arabic/English SEO best practice: ensure each page has proper <link rel='alternate' hreflang='en'/'ar'> to its counterpart (this script uses canonical links pointing to your domain).''),
        Print (''\<newline>'' @
               ''If anything failed during push (auth, API), see the printed errors above. You can also create the repo manually in GitHub and push the 'alforsa_site' folder using git commands.'')])\<close>

definition print_next_manual_steps :: "string \<Rightarrow> world \<Rightarrow> world" where
  "print_next_manual_steps username w = emit (next_manual_steps username) w"

definition banner :: "event list" where
  "banner =
     [Print (''=== Alforsa site builder & GitHub publisher ===''),
      Print (''This script will create a bilingual site under the folder 'alforsa_site' and attempt to push it to GitHub.'')]"

definition credentials_required :: string where
  "credentials_required = ''Username and token are required to push to GitHub. Exiting after local build. You can push manually later.''"

definition local_site_is_in :: "env \<Rightarrow> string" where
  "local_site_is_in e = ''Local site is in: '' @ resolved e"

definition creating_repo :: string where
  "creating_repo = ''\<newline>'' @
                   ''Creating GitHub repo (if not exists) ...''"

definition pushing_site :: string where
  "pushing_site = ''Pushing site to GitHub (temporary token used only for push) ...''"

definition enabling_pages :: string where
  "enabling_pages = ''Attempting to enable GitHub Pages via API (best-effort)...''"

definition done_message :: "env \<Rightarrow> string" where
  "done_message e = ''\<newline>'' @
                    [CHR 0xE2, CHR 0x9C, CHR 0x85] @ '' Done. Local files are in:'' @ '' '' @ resolved e"

definition main :: "env \<Rightarrow> world \<Rightarrow> exn + world" where
  "main e w =
     (case build_site_and_assets e (emit banner w) of
        Inl x \<Rightarrow> Inl x
      | Inr w1 \<Rightarrow>
     (let username = strip (username_input e);
          w2 = emit [Input ''Enter your GitHub username: ''] w1;
          token = strip (token_input e);
          w3 = emit [Getpass ''Enter your GitHub personal access token (keeps it hidden): ''] w2
      in if username = [] \<or> token = []
         then Inr (emit [Print credentials_required, Print (local_site_is_in e)] w3)
         else
     (case create_github_repo username token e (emit [Print creating_repo] w3) of
        Inl x \<Rightarrow> Inl x
      | Inr w4 \<Rightarrow>
     (case push_site_to_github username token e (emit [Print pushing_site] w4) of
        Inl x \<Rightarrow> Inl x
      | Inr w5 \<Rightarrow>
     (case enable_github_pages_api username token e (emit [Print enabling_pages] w5) of
        Inl x \<Rightarrow> Inl x
      | Inr w6 \<Rightarrow>
          Inr (emit [Print (done_message e)] (print_next_manual_steps username w6)))))))"

section \<open>The Sitemap Utility (scripts/generate_sitemap.py)\<close>

definition base :: string where
  "base = ''https://alforsa.sa''"

definition urls :: "string list" where
  "urls = [''/'', ''/en/'', ''/ar/'', ''/en/product-mini.html'', ''/ar/product-mini.html'']"

text \<open>
  The loop binds \<open>en\<close> and \<open>ar\<close> by two chained conditional expressions. Python reads
  \<open>A if c1 else B if c2 else C\<close> as \<open>A if c1 else (B if c2 else C)\<close>.
\<close>

definition en :: "string \<Rightarrow> string" where
  "en path =
     (if startswith path ''/en/'' then path
      else if path = ''/'' then ''/en/'' @ lstrip path ''/''
      else replace path ''/ar/'' ''/en/'')"

definition ar :: "string \<Rightarrow> string" where
  "ar path =
     (if startswith path ''/ar/'' then path
      else if path = ''/'' then ''/ar/'' @ lstrip path ''/''
      else replace path ''/en/'' ''/ar/'')"

text \<open>The seven lines appended for one path; \<open>now\<close> is the formatted UTC time stamp.\<close>

definition url_entry :: "string \<Rightarrow> string \<Rightarrow> string list" where
  \<open>url_entry now path =
     [''  <url>'',
      ''    <loc>'' @ base @ path @ ''</loc>'',
      ''    <lastmod>'' @ now @ ''</lastmod>'',
      ''    <changefreq>weekly</changefreq>'',
      ''    <priority>0.8</priority>'',
      ''    <xhtml:link rel="alternate" hreflang="en" href="'' @ base @ en path @ ''" />'',
      ''    <xhtml:link rel="alternate" hreflang="ar" href="'' @ base @ ar path @ ''" />'',
      ''  </url>'']\<close>

definition lines :: "string \<Rightarrow> string list" where
  \<open>lines now =
     [''<?xml version="1.0" encoding="UTF-8"?>'',
      ''<urlset xmlns="http://www.sitemaps.org/schemas/sitemap/0.9" xmlns:xhtml="http://www.w3.org/1999/xhtml">'']
     @ concat (map (url_entry now) urls)
     @ [''</urlset>'']\<close>

definition generate_sitemap :: "string \<Rightarrow> string" where
  "generate_sitemap now = join ''\<newline>'' (lines now)"

section \<open>What is observed of a run\<close>

text \<open>The HTTP requests, the Git calls and the push statements of a trace, in order.\<close>

fun is_post :: "event \<Rightarrow> bool" where
  "is_post (Post url auth body) = True"
| "is_post ev = False"

fun is_git :: "event \<Rightarrow> bool" where
  "is_git (Git op ok) = True"
| "is_git ev = False"

fun push_of :: "event \<Rightarrow> (string \<times> bool) option" where
  "push_of (Git (Push r refspec force) ok) = Some (refspec, ok)"
| "push_of ev = None"

definition posts :: "event list \<Rightarrow> event list" where
  "posts tr = filter is_post tr"

definition git_calls :: "event list \<Rightarrow> event list" where
  "git_calls tr = filter is_git tr"

definition pushes :: "event list \<Rightarrow> (string \<times> bool) list" where
  "pushes tr = List.map_filter push_of tr"

text \<open>The events that a procedure added to the trace it started from.\<close>

definition added :: "world \<Rightarrow> world \<Rightarrow> event list" where
  "added w w' = drop (length (trace w)) (trace w')"

text \<open>A run used in examples: every call succeeds and the working directory is empty.\<close>

definition env0 :: env where
  "env0 = \<lparr>today = ''2024-05-01'', utc_year = 2024, resolved = ''/home/user/alforsa_site'',
           username_input = ''octocat'', token_input = ''ghp_token'',
           create_response = Some (201, ''''), pages_response = Some (201, ''''),
           init_error = None, add_error = None, commit_error = None,
           git_dir = Dir [], delete_old_raises = False, create_raises = False,
           push_outcome = (\<lambda>refspec. Accepted), delete_raises = False,
           lookup_error = ''''\<rparr>"

definition world0 :: world where
  "world0 = \<lparr>cwd = Dir [], archive = None, remotes = [], trace = []\<rparr>"

text \<open>The \<open><loc>\<close> lines of a sitemap and the canonical link tag of an HTML document.\<close>

definition loc_line :: "string \<Rightarrow> string" where
  "loc_line u = ''    <loc>'' @ u @ ''</loc>''"

definition loc_lines :: "string list \<Rightarrow> string list" where
  "loc_lines ls = filter (\<lambda>l. startswith l ''    <loc>'') ls"

definition canonical_tag :: "string \<Rightarrow> string" where
  \<open>canonical_tag url = ''<link rel="canonical" href="'' @ url @ ''">''\<close>

text \<open>
  The files of a directory tree, each with its path below the directory (after the prefix
  \<open>q\<close>), and the names of all entries of a tree.
\<close>

fun content :: "node \<Rightarrow> string" where
  "content (File c) = c"
| "content (Dir es) = []"

fun files_below :: "path \<Rightarrow> node \<Rightarrow> (path \<times> string) list" where
  "files_below q (File c) = []"
| "files_below q (Dir es) =
     map (\<lambda>(n, sub). (q @ [n], content sub)) (filter (\<lambda>(n, sub). \<not> is_dir sub) es)
     @ concat (map (\<lambda>(n, sub). files_below (q @ [n]) sub) (filter (\<lambda>(n, sub). is_dir sub) es))"

fun names_of :: "node \<Rightarrow> string list" where
  "names_of (File c) = []"
| "names_of (Dir es) = concat (map (\<lambda>(n, sub). n # names_of sub) es)"

definition names_at :: "path \<Rightarrow> node \<Rightarrow> string set" where
  "names_at q t = (case lookup_node q t of None \<Rightarrow> {} | Some n \<Rightarrow> set (names_of n))"

definition dir_at :: "string \<Rightarrow> node \<Rightarrow> bool" where
  "dir_at d t = (case lookup_node [d] t of Some n \<Rightarrow> is_dir n | None \<Rightarrow> False)"

section \<open>Properties of the Site Builder\<close>

lemma emit_simps [simp]:
  "trace (emit es w) = trace w @ es"
  "remotes (emit es w) = remotes w"
  "cwd (emit es w) = cwd w"
  "archive (emit es w) = archive w"
  by (simp_all add: emit_def)

lemma added_append [simp]: "added w (w'\<lparr>trace := trace w @ X\<rparr>) = X"
  by (simp add: added_def)

lemma posts_simps [simp]:
  "posts [] = []"
  "posts (ev # tr) = (if is_post ev then ev # posts tr else posts tr)"
  "posts (tr @ tr') = posts tr @ posts tr'"
  by (simp_all add: posts_def)

lemma git_calls_simps [simp]:
  "git_calls [] = []"
  "git_calls (ev # tr) = (if is_git ev then ev # git_calls tr else git_calls tr)"
  "git_calls (tr @ tr') = git_calls tr @ git_calls tr'"
  by (simp_all add: git_calls_def)

lemma pushes_simps [simp]:
  "pushes [] = []"
  "pushes (ev # tr) = (case push_of ev of None \<Rightarrow> pushes tr | Some p \<Rightarrow> p # pushes tr)"
  "pushes (tr @ tr') = pushes tr @ pushes tr'"
  by (simp_all add: pushes_def List.map_filter_def split: option.splits)

text \<open>The build adds one line to the trace and leaves the remotes alone.\<close>

lemma build_trace:
  assumes "build_site_and_assets e w = Inr w'"
  shows "trace w' = trace w @ [Print (built_message e)]" and "remotes w' = remotes w"
  using assms
  by (auto simp: build_site_and_assets_def split: sum.splits option.splits node.splits)

lemma build_emit:
  assumes "build_site_and_assets e w = Inr w1"
  shows "build_site_and_assets e (emit X w) =
           Inr (w1\<lparr>trace := trace w @ X @ [Print (built_message e)]\<rparr>)"
  using assms
  by (auto simp: build_site_and_assets_def emit_def split: sum.splits option.splits node.splits)

text \<open>A build in an empty working directory succeeds.\<close>

lemma build_fresh:
  assumes "cwd w = Dir []"
  shows "\<exists>w'. build_site_and_assets e w = Inr w'"
  using assms
  by (simp add: build_site_and_assets_def ensure_dirs_def site_documents_def
      page_documents_def PAGES_def OUTPUT_DIR_def zipname_def verification_filename_def
      zip_entries_def read_file_def relpath_def Let_def)

section \<open>Properties of the Repo Publisher\<close>

lemma filter_other_names:
  "n \<notin> set (map fst rs) \<Longrightarrow> filter (\<lambda>r. fst r \<noteq> n) rs = rs"
  by (induction rs) auto

lemma name_not_in_filter [simp]:
  "n \<notin> fst ` {r \<in> set rs. fst r \<noteq> n}"
  by auto

text \<open>The steps of the push, one by one.\<close>

lemma set_temp_remote_created:
  assumes "\<not> delete_old_raises e" and "\<not> create_raises e"
  shows "set_temp_remote url e w =
           Inr (w\<lparr>remotes := filter (\<lambda>r. fst r \<noteq> ''temp-origin'') (remotes w) @ [(''temp-origin'', url)],
                  trace := trace w @
                    (if ''temp-origin'' \<in> set (map fst (remotes w))
                     then [Git (DeleteRemote ''temp-origin'') True] else []) @
                    [Git (CreateRemote ''temp-origin'' url) True]\<rparr>)"
  using assms
  by (simp add: set_temp_remote_def delete_remote_def create_remote_def emit_def Let_def
      filter_other_names)

lemma set_temp_remote_trace:
  assumes "set_temp_remote url e w = Inr w3"
  shows "\<exists>es. trace w3 = trace w @ es \<and> posts es = [] \<and> pushes es = []"
  using assms
  by (auto simp: set_temp_remote_def delete_remote_def create_remote_def emit_def Let_def
      split: if_splits)

lemma try_push_present:
  assumes "''temp-origin'' \<in> set (map fst (remotes w))"
  shows "try_push branch e w =
     (case push_outcome e (branch @ '':'' @ branch) of
        Raises err \<Rightarrow>
          (Some err, emit [Git (Push ''temp-origin'' (branch @ '':'' @ branch) True) False] w)
      | _ \<Rightarrow> (None, emit [Git (Push ''temp-origin'' (branch @ '':'' @ branch) True) True] w))"
  using assms by (simp add: try_push_def Let_def split: push_outcome.splits)

lemma try_push_trace:
  assumes "try_push branch e w = (r, w')"
  shows "\<exists>es. trace w' = trace w @ es \<and> posts es = [] \<and>
           pushes es = (if ''temp-origin'' \<in> set (map fst (remotes w))
                        then [(branch @ '':'' @ branch, r = None)] else []) \<and>
           (r = None \<longrightarrow> ''temp-origin'' \<in> set (map fst (remotes w)))"
  using assms
  by (auto simp: try_push_def Let_def emit_def split: if_splits push_outcome.splits)

lemma try_push_remotes:
  assumes "try_push branch e w = (r, w')"
  shows "remotes w' = remotes w"
  using assms
  by (auto simp: try_push_def Let_def emit_def split: if_splits push_outcome.splits)

lemma remove_temp_remote_eq:
  "remove_temp_remote e w =
     (if delete_raises e \<or> ''temp-origin'' \<notin> set (map fst (remotes w))
      then emit [Git (DeleteRemote ''temp-origin'') False] w
      else emit [Git (DeleteRemote ''temp-origin'') True]
             (w\<lparr>remotes := filter (\<lambda>r. fst r \<noteq> ''temp-origin'') (remotes w)\<rparr>))"
  by (simp add: remove_temp_remote_def delete_remote_def)

lemma remove_temp_remote_trace:
  "\<exists>ok. trace (remove_temp_remote e w) = trace w @ [Git (DeleteRemote ''temp-origin'') ok]"
  by (auto simp: remove_temp_remote_eq)

lemmas push_steps =
  push_site_to_github_def set_temp_remote_created try_push_present remove_temp_remote_eq Let_def

text \<open>
  When the removal of an old \<open>temp-origin\<close> and the creation of the new one do not raise,
  the function returns, and its pushes follow the outcomes of the two push statements.
\<close>

lemma push_cases:
  assumes "init_error e = None" and "\<not> delete_old_raises e" and "\<not> create_raises e"
  shows "\<exists>w' ok. push_site_to_github username token e w = Inr w' \<and>
     (case push_outcome e ''master:master'' of
        Raises err \<Rightarrow>
          (case push_outcome e ''main:main'' of
             Raises e2 \<Rightarrow>
               pushes (added w w') = [(''master:master'', False), (''main:main'', False)] \<and>
               suffix [Print (push_failed e2), Print possible_reasons,
                       Git (DeleteRemote ''temp-origin'') ok] (added w w')
           | _ \<Rightarrow>
               pushes (added w w') = [(''master:master'', False), (''main:main'', True)] \<and>
               suffix [Git (DeleteRemote ''temp-origin'') ok,
                       Print (files_pushed username ''main'')] (added w w'))
      | _ \<Rightarrow>
          pushes (added w w') = [(''master:master'', True)] \<and>
          suffix [Git (DeleteRemote ''temp-origin'') ok,
                  Print (files_pushed username ''master'')] (added w w'))"
  using assms
  by (auto simp: push_steps added_def suffix_def split: option.splits push_outcome.splits)

lemma push_returns:
  assumes "init_error e = None" and "\<not> delete_old_raises e" and "\<not> create_raises e"
  shows "\<exists>w'. push_site_to_github username token e w = Inr w'"
  using push_cases [OF assms] by blast

lemma push_trace:
  assumes "push_site_to_github username token e w = Inr w'"
  shows "trace w' = trace w @ added w w'" and "posts (added w w') = []"
    and "pushes (added w w') = [(''master:master'', False), (''main:main'', True)] \<Longrightarrow>
         Print (files_pushed username ''main'') \<in> set (added w w')"
proof -
  have "trace w' = trace w @ added w w' \<and> posts (added w w') = [] \<and>
        (pushes (added w w') = [(''master:master'', False), (''main:main'', True)] \<longrightarrow>
         Print (files_pushed username ''main'') \<in> set (added w w'))"
  proof (cases "init_error e")
    case (Some err)
    with assms show ?thesis
      by (auto simp: push_site_to_github_def added_def)
  next
    case None
    define w2 where "w2 =
      (case add_error e of
         Some err \<Rightarrow>
           emit [Git AddAll False, Print ([CHR 0xE2, CHR 0x9A, CHR 0xA0, CHR 0xEF, CHR 0xB8, CHR 0x8F] @ '' Commit warning:'' @ '' '' @ err)]
             (emit [Git (Init (resolved e)) True] (w\<lparr>cwd := git_init (git_dir e) (cwd w)\<rparr>))
       | None \<Rightarrow>
           (case commit_error e of
              Some err \<Rightarrow>
                emit [Git AddAll True, Git (Commit commit_message) False,
                      Print ([CHR 0xE2, CHR 0x9A, CHR 0xA0, CHR 0xEF, CHR 0xB8, CHR 0x8F] @ '' Commit warning:'' @ '' '' @ err)]
                  (emit [Git (Init (resolved e)) True] (w\<lparr>cwd := git_init (git_dir e) (cwd w)\<rparr>))
            | None \<Rightarrow>
                emit [Git AddAll True, Git (Commit commit_message) True]
                  (emit [Git (Init (resolved e)) True] (w\<lparr>cwd := git_init (git_dir e) (cwd w)\<rparr>))))"
    have "\<exists>es. trace w2 = trace w @ es \<and> posts es = [] \<and> pushes es = []"
      by (auto simp: w2_def split: option.splits)
    then obtain es2 where t2: "trace w2 = trace w @ es2" "posts es2 = []" "pushes es2 = []"
      by blast
    from assms None obtain w3 where s3: "set_temp_remote (remote_url username token) e w2 = Inr w3"
      by (auto simp: push_site_to_github_def Let_def w2_def split: sum.splits)
    from set_temp_remote_trace [OF s3] obtain es3 where
      t3: "trace w3 = trace w2 @ es3" "posts es3 = []" "pushes es3 = []"
      by blast
    obtain r4 w4 where p4: "try_push ''master'' e w3 = (r4, w4)"
      by (cases "try_push ''master'' e w3")
    from try_push_trace [OF p4] obtain es4 where
      t4: "trace w4 = trace w3 @ es4" "posts es4 = []"
        "pushes es4 = (if ''temp-origin'' \<in> set (map fst (remotes w3))
                       then [(''master:master'', r4 = None)] else [])"
      by auto
    show ?thesis
    proof (cases r4)
      case n4: None
      with assms None s3 p4
      have w': "w' = emit [Print (files_pushed username ''master'')] (remove_temp_remote e w4)"
        by (simp add: push_site_to_github_def Let_def w2_def)
      from remove_temp_remote_trace [of e w4] obtain ok where
        "trace (remove_temp_remote e w4) = trace w4 @ [Git (DeleteRemote ''temp-origin'') ok]"
        by blast
      with t2 t3 t4 n4 show ?thesis
        by (simp add: w' added_def)
    next
      case s4: (Some err)
      obtain r5 w5 where p5: "try_push ''main'' e w4 = (r5, w5)"
        by (cases "try_push ''main'' e w4")
      from try_push_trace [OF p5] try_push_remotes [OF p4] obtain es5 where
        t5: "trace w5 = trace w4 @ es5" "posts es5 = []"
          "pushes es5 = (if ''temp-origin'' \<in> set (map fst (remotes w3))
                         then [(''main:main'', r5 = None)] else [])"
        by auto
      show ?thesis
      proof (cases r5)
        case n5: None
        with assms None s3 p4 s4 p5
        have w': "w' = emit [Print (files_pushed username ''main'')] (remove_temp_remote e w5)"
          by (simp add: push_site_to_github_def Let_def w2_def)
        from remove_temp_remote_trace [of e w5] obtain ok where
          "trace (remove_temp_remote e w5) = trace w5 @ [Git (DeleteRemote ''temp-origin'') ok]"
          by blast
        with t2 t3 t4 t5 show ?thesis
          by (simp add: w' added_def)
      next
        case s5: (Some e2)
        with assms None s3 p4 s4 p5
        have w': "w' = remove_temp_remote e
                         (emit [Print (push_failed e2), Print possible_reasons] w5)"
          by (simp add: push_site_to_github_def Let_def w2_def)
        from remove_temp_remote_trace
          [of e "emit [Print (push_failed e2), Print possible_reasons] w5"]
        obtain ok where
          "trace (remove_temp_remote e (emit [Print (push_failed e2), Print possible_reasons] w5))
             = trace w5 @ [Print (push_failed e2), Print possible_reasons,
                           Git (DeleteRemote ''temp-origin'') ok]"
          by auto
        with t2 t3 t4 t5 s4 s5 show ?thesis
          by (simp add: w' added_def)
      qed
    qed
  qed
  then show "trace w' = trace w @ added w w'" and "posts (added w w') = []"
    and "pushes (added w w') = [(''master:master'', False), (''main:main'', True)] \<Longrightarrow>
         Print (files_pushed username ''main'') \<in> set (added w w')"
    by blast+
qed

text \<open>The run of main.\<close>

lemma banner_events [simp]:
  "posts banner = []" "pushes banner = []" "git_calls banner = []"
  by (simp_all add: banner_def)

lemma next_manual_steps_events [simp]:
  "posts (next_manual_steps username) = []"
  "pushes (next_manual_steps username) = []"
  by (simp_all add: next_manual_steps_def Let_def)

lemma pages_request:
  assumes "enable_github_pages_api username token e w = Inr w'"
  shows "posts (added w w') =
        [Post (pages_url username) (username, token)
           (JObject [(''source'', JObject [(''branch'', JString ''master''),
                                           (''path'', JString ''/'')])])]"
  using assms
  by (auto simp: enable_github_pages_api_def payload_def added_def split: option.splits)

lemma main_trace:
  assumes m: "main e w = Inr w'"
    and ne: "strip (username_input e) \<noteq> []" "strip (token_input e) \<noteq> []"
  shows "\<exists>w4 w5 req cm pm pm2.
      push_site_to_github (strip (username_input e)) (strip (token_input e)) e w4 = Inr w5 \<and>
      remotes w4 = remotes w \<and> is_post req \<and> push_of req = None \<and>
      added w w' =
        banner @ [Print (built_message e), Input ''Enter your GitHub username: '',
          Getpass ''Enter your GitHub personal access token (keeps it hidden): '',
          Print creating_repo, req, Print cm, Print pushing_site] @ added w4 w5 @
        [Print enabling_pages,
         Post (pages_url (strip (username_input e)))
           (strip (username_input e), strip (token_input e)) payload,
         Print pm, Print pm2] @
        next_manual_steps (strip (username_input e)) @ [Print (done_message e)]"
proof -
  define u where "u = strip (username_input e)"
  define t where "t = strip (token_input e)"
  from m obtain w1 where b: "build_site_and_assets e (emit banner w) = Inr w1"
    by (auto simp: main_def split: sum.splits)
  note tr1 = build_trace [OF b]
  define w3 where "w3 = emit [Getpass ''Enter your GitHub personal access token (keeps it hidden): '']
      (emit [Input ''Enter your GitHub username: ''] w1)"
  from m b ne obtain w4 w5 w6 where
    c: "create_github_repo u t e (emit [Print creating_repo] w3) = Inr w4" and
    s: "push_site_to_github u t e (emit [Print pushing_site] w4) = Inr w5" and
    g: "enable_github_pages_api u t e (emit [Print enabling_pages] w5) = Inr w6" and
    w': "w' = emit [Print (done_message e)] (print_next_manual_steps u w6)"
    by (auto simp: main_def Let_def u_def t_def w3_def split: sum.splits)
  define X where "X = added (emit [Print pushing_site] w4) w5"
  from c obtain req cm where t4: "trace w4 = trace w3 @ [Print creating_repo, req, Print cm]"
    and r4: "remotes w4 = remotes w3"
    and req: "is_post req" "push_of req = None"
    by (auto simp: create_github_repo_def Let_def split: option.splits)
  from push_trace(1) [OF s] have t5: "trace w5 = trace w4 @ [Print pushing_site] @ X"
    by (simp add: X_def)
  from g obtain pm pm2 where t6: "trace w6 = trace w5 @
      [Print enabling_pages, Post (pages_url u) (u, t) payload, Print pm, Print pm2]"
    by (auto simp: enable_github_pages_api_def split: option.splits)
  have a: "added w w' = banner @ [Print (built_message e), Input ''Enter your GitHub username: '',
      Getpass ''Enter your GitHub personal access token (keeps it hidden): '',
      Print creating_repo, req, Print cm, Print pushing_site] @ X @
      [Print enabling_pages, Post (pages_url u) (u, t) payload, Print pm, Print pm2] @
      next_manual_steps u @ [Print (done_message e)]"
    by (simp add: added_def w' print_next_manual_steps_def t6 t5 t4 w3_def tr1)
  have "remotes (emit [Print pushing_site] w4) = remotes w"
    by (simp add: r4 w3_def tr1)
  with s a req show ?thesis
    unfolding X_def u_def t_def by blast
qed

lemma main_after_fallback:
  assumes m: "main e w = Inr w'"
    and p: "pushes (added w w') = [(''master:master'', False), (''main:main'', True)]"
  shows "Print (files_pushed (strip (username_input e)) ''main'') \<in> set (added w w') \<and>
      (\<exists>req. posts (added w w') =
         [req,
          Post (pages_url (strip (username_input e)))
            (strip (username_input e), strip (token_input e))
            (JObject [(''source'', JObject [(''branch'', JString ''master''),
                                            (''path'', JString ''/'')])])])"
proof -
  have ne: "strip (username_input e) \<noteq> [] \<and> strip (token_input e) \<noteq> []"
  proof (rule ccontr)
    assume n: "\<not> (strip (username_input e) \<noteq> [] \<and> strip (token_input e) \<noteq> [])"
    from m obtain w1 where b: "build_site_and_assets e (emit banner w) = Inr w1"
      by (auto simp: main_def split: sum.splits)
    with m n build_trace [OF b] have "pushes (added w w') = []"
      by (auto simp: main_def Let_def added_def)
    with p show False by simp
  qed
  with main_trace [OF m] obtain w4 w5 req cm pm pm2 where
    s: "push_site_to_github (strip (username_input e)) (strip (token_input e)) e w4 = Inr w5"
    and req: "is_post req" "push_of req = None"
    and a: "added w w' =
        banner @ [Print (built_message e), Input ''Enter your GitHub username: '',
          Getpass ''Enter your GitHub personal access token (keeps it hidden): '',
          Print creating_repo, req, Print cm, Print pushing_site] @ added w4 w5 @
        [Print enabling_pages,
         Post (pages_url (strip (username_input e)))
           (strip (username_input e), strip (token_input e)) payload,
         Print pm, Print pm2] @
        next_manual_steps (strip (username_input e)) @ [Print (done_message e)]"
    by blast
  from p req have "pushes (added w4 w5) = [(''master:master'', False), (''main:main'', True)]"
    by (simp add: a)
  with push_trace(3) [OF s]
  have "Print (files_pushed (strip (username_input e)) ''main'') \<in> set (added w w')"
    by (simp add: a)
  moreover have "posts (added w w') =
      [req, Post (pages_url (strip (username_input e)))
              (strip (username_input e), strip (token_input e)) payload]"
    using req push_trace(2) [OF s] by (simp add: a)
  ultimately show ?thesis
    by (auto simp: payload_def)
qed

lemma main_returns:
  assumes b: "build_site_and_assets e w = Inr w1"
    and "create_response e \<noteq> None" and "pages_response e \<noteq> None"
    and i: "init_error e = None" and d: "\<not> delete_old_raises e" and c: "\<not> create_raises e"
  shows "\<exists>w'. main e w = Inr w'"
proof -
  from assms(2,3) obtain cr pr where r: "create_response e = Some cr" "pages_response e = Some pr"
    by auto
  have p: "\<exists>w'. push_site_to_github u t e v = Inr w'" for u t v
    using push_returns [OF i d c] by blast
  show ?thesis
  proof (cases "strip (username_input e) = [] \<or> strip (token_input e) = []")
    case True
    then show ?thesis
      by (auto simp: main_def build_emit [OF b] Let_def)
  next
    case False
    obtain w4 where w4: "create_github_repo (strip (username_input e)) (strip (token_input e)) e
        (emit [Print creating_repo]
          (emit [Getpass ''Enter your GitHub personal access token (keeps it hidden): '']
            (emit [Input ''Enter your GitHub username: '']
              (w1\<lparr>trace := trace w @ banner @ [Print (built_message e)]\<rparr>)))) = Inr w4"
      using r by (cases cr) (simp add: create_github_repo_def Let_def)
    from p obtain w5 where w5: "push_site_to_github (strip (username_input e))
        (strip (token_input e)) e (emit [Print pushing_site] w4) = Inr w5"
      by blast
    obtain w6 where w6: "enable_github_pages_api (strip (username_input e))
        (strip (token_input e)) e (emit [Print enabling_pages] w5) = Inr w6"
      using r by (cases pr) (simp add: enable_github_pages_api_def)
    from False w4 w5 w6 show ?thesis
      by (simp add: main_def build_emit [OF b] Let_def)
  qed
qed

text \<open>
  Claim C1. The remote \<open>temp-origin\<close>, whose URL holds the credential, does not always go
  before \<open>push_site_to_github\<close> returns. The function calls \<open>delete_remote\<close> at each of
  its ends, inside \<open>try ... except Exception: pass\<close>. In the run below every call
  succeeds but that last one, which raises: the remote is created, the push to \<open>master\<close>
  returns, the removal fails, the exception is dropped, the line of success is printed and
  the function returns normally. The remote with the credential in its URL is still in the
  configuration of the repository.
\<close>

theorem temp_remote_kept_when_removal_fails:
  "push_site_to_github ''octocat'' ''ghp_token'' (env0\<lparr>delete_raises := True\<rparr>) world0 =
     Inr \<lparr>cwd = Dir [(OUTPUT_DIR, Dir [(''.git'', Dir [])])],
          archive = None,
          remotes = [(''temp-origin'', remote_url ''octocat'' ''ghp_token'')],
          trace = [Git (Init ''/home/user/alforsa_site'') True,
                   Git AddAll True,
                   Git (Commit commit_message) True,
                   Git (CreateRemote ''temp-origin'' (remote_url ''octocat'' ''ghp_token'')) True,
                   Git (Push ''temp-origin'' ''master:master'' True) True,
                   Git (DeleteRemote ''temp-origin'') False,
                   Print (files_pushed ''octocat'' ''master'')]\<rparr>"
  by (simp add: push_site_to_github_def set_temp_remote_def create_remote_def try_push_def
      remove_temp_remote_def delete_remote_def git_init_def emit_def env0_def world0_def Let_def)

text \<open>
  Claim C5. A push that fails is not always followed by the push to \<open>main\<close>. The value that
  \<open>push\<close> returns is dropped, so only a push statement that raises counts as failed. In
  the run below the remote rejects both refs and \<open>push\<close> returns each time: the only push
  is the one to \<open>master\<close>, there is no push to \<open>main\<close>, and the function prints that the
  files were pushed to \<open>master\<close>.
\<close>

theorem rejected_push_is_not_retried:
  "push_site_to_github ''octocat'' ''ghp_token'' (env0\<lparr>push_outcome := (\<lambda>refspec. Rejected)\<rparr>)
       world0 =
     Inr \<lparr>cwd = Dir [(OUTPUT_DIR, Dir [(''.git'', Dir [])])],
          archive = None,
          remotes = [],
          trace = [Git (Init ''/home/user/alforsa_site'') True,
                   Git AddAll True,
                   Git (Commit commit_message) True,
                   Git (CreateRemote ''temp-origin'' (remote_url ''octocat'' ''ghp_token'')) True,
                   Git (Push ''temp-origin'' ''master:master'' True) True,
                   Git (DeleteRemote ''temp-origin'') True,
                   Print (files_pushed ''octocat'' ''master'')]\<rparr>"
  by (simp add: push_site_to_github_def set_temp_remote_def create_remote_def try_push_def
      remove_temp_remote_def delete_remote_def git_init_def emit_def env0_def world0_def Let_def)

text \<open>
  Claim C10. When the creation of \<open>temp-origin\<close> raises \<open>GitCommandError\<close> in a repository
  that has no remote at all (so none named \<open>temporigin\<close> either), the handler's
  \<open>repo.remotes[0]\<close> raises \<open>IndexError\<close>, nothing catches it, and the function ends with
  that exception.
\<close>

theorem push_raises_IndexError:
  assumes "init_error e = None" and "remotes w = []"
    and "\<not> fst (create_remote ''temp-origin'' (remote_url username token) e w)"
  shows "push_site_to_github username token e w = Inl IndexError"
  using assms
  by (simp add: push_site_to_github_def set_temp_remote_def create_remote_def Let_def
      split: option.splits if_splits)

theorem push_raises_IndexError_witness:
  "init_error (env0\<lparr>create_raises := True\<rparr>) = None \<and> remotes world0 = [] \<and>
   \<not> fst (create_remote ''temp-origin'' (remote_url ''octocat'' ''ghp_token'')
            (env0\<lparr>create_raises := True\<rparr>) world0) \<and>
   push_site_to_github ''octocat'' ''ghp_token'' (env0\<lparr>create_raises := True\<rparr>) world0 =
     Inl IndexError"
proof -
  let ?e = "env0\<lparr>create_raises := True\<rparr>"
  have i: "init_error ?e = None" and r: "remotes world0 = []"
    and c: "\<not> fst (create_remote ''temp-origin'' (remote_url ''octocat'' ''ghp_token'') ?e world0)"
    by (simp_all add: env0_def world0_def create_remote_def)
  from push_raises_IndexError [OF i r c] i r c show ?thesis
    by blast
qed

text \<open>
  Claim C4. When the user name or the credential is empty after stripping, \<open>main\<close> returns
  right after the build: it makes no HTTP request and no Git call, it leaves the tree, the
  archive and the remotes as the build left them, and the last two lines it prints are
  the notice and the path of the local site.
\<close>

theorem publish_skipped_without_credentials:
  assumes "strip (username_input e) = [] \<or> strip (token_input e) = []"
    and "build_site_and_assets e w = Inr w1"
  shows "\<exists>w'. main e w = Inr w' \<and>
           cwd w' = cwd w1 \<and> archive w' = archive w1 \<and> remotes w' = remotes w \<and>
           posts (added w w') = [] \<and> git_calls (added w w') = [] \<and>
           suffix [Print credentials_required, Print (''Local site is in: '' @ resolved e)]
             (added w w')"
  using assms build_trace(2) [OF assms(2)]
  by (auto simp: main_def build_emit Let_def added_def suffix_def local_site_is_in_def)

theorem publish_skipped_without_credentials_witness:
  "strip (username_input (env0\<lparr>username_input := ''  ''\<rparr>)) = [] \<and>
   (\<exists>w1 w'. build_site_and_assets (env0\<lparr>username_input := ''  ''\<rparr>) world0 = Inr w1 \<and>
      main (env0\<lparr>username_input := ''  ''\<rparr>) world0 = Inr w' \<and> cwd w' = cwd w1 \<and>
      posts (added world0 w') = [] \<and> git_calls (added world0 w') = [])"
proof -
  let ?e = "env0\<lparr>username_input := ''  ''\<rparr>"
  have e: "strip ''  '' = []"
    by (simp add: strip_def strip_leading.simps whitespace_def)
  then have s: "strip (username_input ?e) = [] \<or> strip (token_input ?e) = []"
    by (simp add: env0_def)
  obtain w1 where b: "build_site_and_assets ?e world0 = Inr w1"
    using build_fresh [of world0 ?e] by (auto simp: world0_def)
  from publish_skipped_without_credentials [OF s b] b e show ?thesis
    by (auto simp: env0_def)
qed

text \<open>
  Claim C9. The body of the Pages request is always
  \<open>{"source": {"branch": "master", "path": "/"}}\<close>. It does not depend on the push: in a
  run of \<open>main\<close> where the push to \<open>master\<close> failed and the push to \<open>main\<close> succeeded (the
  line printed names the branch \<open>main\<close>), the second and last request is the Pages request
  with the branch \<open>master\<close>.
\<close>

theorem pages_request_names_master:
  "(\<forall>username token e w w'.
      enable_github_pages_api username token e w = Inr w' \<longrightarrow>
      posts (added w w') =
        [Post (pages_url username) (username, token)
           (JObject [(''source'', JObject [(''branch'', JString ''master''),
                                           (''path'', JString ''/'')])])]) \<and>
   (\<forall>e w w'.
      main e w = Inr w' \<longrightarrow>
      pushes (added w w') = [(''master:master'', False), (''main:main'', True)] \<longrightarrow>
      Print (files_pushed (strip (username_input e)) ''main'') \<in> set (added w w') \<and>
      (\<exists>req. posts (added w w') =
         [req,
          Post (pages_url (strip (username_input e)))
            (strip (username_input e), strip (token_input e))
            (JObject [(''source'', JObject [(''branch'', JString ''master''),
                                            (''path'', JString ''/'')])])]))"
  using pages_request main_after_fallback by blast

theorem pages_request_names_master_witness:
  "\<exists>w'. main (env0\<lparr>push_outcome := (\<lambda>r. if r = ''master:master'' then Raises ''rejected'' else Accepted)\<rparr>)
           world0 = Inr w' \<and>
     pushes (added world0 w') = [(''master:master'', False), (''main:main'', True)] \<and>
     Print (files_pushed ''octocat'' ''main'') \<in> set (added world0 w') \<and>
     (\<exists>req. posts (added world0 w') =
        [req, Post (pages_url ''octocat'') (''octocat'', ''ghp_token'')
                (JObject [(''source'', JObject [(''branch'', JString ''master''),
                                                (''path'', JString ''/'')])])])"
proof -
  let ?e = "env0\<lparr>push_outcome := (\<lambda>r. if r = ''master:master'' then Raises ''rejected'' else Accepted)\<rparr>"
  have u: "strip (username_input ?e) = ''octocat''" and t: "strip (token_input ?e) = ''ghp_token''"
    by (simp_all add: env0_def strip_def strip_leading.simps whitespace_def)
  have i: "init_error ?e = None" and d: "\<not> delete_old_raises ?e" and c: "\<not> create_raises ?e"
    by (simp_all add: env0_def)
  obtain w1 where b: "build_site_and_assets ?e world0 = Inr w1"
    using build_fresh [of world0 ?e] by (auto simp: world0_def)
  from main_returns [OF b _ _ i d c] obtain w' where m: "main ?e world0 = Inr w'"
    by (auto simp: env0_def)
  from main_trace [OF m] u t obtain w4 w5 req cm pm pm2 where
    s: "push_site_to_github ''octocat'' ''ghp_token'' ?e w4 = Inr w5" and
    r4: "remotes w4 = remotes world0" and req: "is_post req" "push_of req = None" and
    a: "added world0 w' =
        banner @ [Print (built_message ?e), Input ''Enter your GitHub username: '',
          Getpass ''Enter your GitHub personal access token (keeps it hidden): '',
          Print creating_repo, req, Print cm, Print pushing_site] @ added w4 w5 @
        [Print enabling_pages,
         Post (pages_url ''octocat'') (''octocat'', ''ghp_token'') payload,
         Print pm, Print pm2] @
        next_manual_steps ''octocat'' @ [Print (done_message ?e)]"
    by auto
  from push_cases [OF i d c, of "''octocat''" "''ghp_token''" w4] s
  have "pushes (added w4 w5) = [(''master:master'', False), (''main:main'', True)]"
    by (auto simp: env0_def Let_def)
  with req have p: "pushes (added world0 w') = [(''master:master'', False), (''main:main'', True)]"
    by (simp add: a)
  have "Print (files_pushed (strip (username_input ?e)) ''main'') \<in> set (added world0 w') \<and>
      (\<exists>req. posts (added world0 w') =
         [req,
          Post (pages_url (strip (username_input ?e)))
            (strip (username_input ?e), strip (token_input ?e))
            (JObject [(''source'', JObject [(''branch'', JString ''master''),
                                            (''path'', JString ''/'')])])])"
    using pages_request_names_master m p by blast
  with m p show ?thesis
    unfolding u t by blast
qed

section \<open>Properties of the Sitemap Utility\<close>





end
